theory Spec2Isabelle
  imports Main
begin

section \<open>Errors and configuration\<close>

text \<open>
  The generation modes of \<^verbatim>\<open>config.veo.supportedModes\<close> and the operational
  errors of \<^verbatim>\<open>utils/errors.js\<close> and \<^verbatim>\<open>quotaService.js\<close>. A thrown error
  is the \<open>Inl\<close> branch of a sum. \<open>TypeError\<close> is the error JavaScript raises
  itself (\<^verbatim>\<open>reduce\<close> of an empty array with no initial value).
\<close>

datatype mode = TEXT_TO_VIDEO | IMAGE_TO_VIDEO | VIDEO_TO_VIDEO

datatype app_error =
    QuotaExceededError string int
  | UnsupportedModeError mode
  | VeoApiError string
  | NotFoundError string
  | ValidationError
  | RateLimitExceeded
  | TypeError

text \<open>
  The part of the \<^verbatim>\<open>config\<close> object the modelled functions read. The nested
  objects \<^verbatim>\<open>veo.forwardParams\<close>, \<^verbatim>\<open>veo.defaults\<close>, \<^verbatim>\<open>veo.limits\<close> and
  \<^verbatim>\<open>quota\<close> are flattened into one record.
\<close>

record config =
  supportedModes :: "mode \<Rightarrow> bool"
  forward_fps :: bool
  forward_seed :: bool
  forward_negativePrompt :: bool
  forward_generateAudio :: bool
  forward_resolution :: bool
  default_durationSeconds :: int
  default_aspectRatio :: string
  allowedDurations :: "int list"
  dailyVideoGenerations :: int

text \<open>
  The environment variables the configuration module reads. \<open>USER_DAILY_QUOTA\<close>
  holds the value of \<^verbatim>\<open>parseInt(process.env.USER_DAILY_QUOTA, 10)\<close>, with
  \<open>None\<close> for \<^verbatim>\<open>NaN\<close> (unset or not a number).
\<close>

record process_env =
  VEO_ENABLE_IMAGE_TO_VIDEO :: "string option"
  VEO_FORWARD_FPS :: "string option"
  VEO_FORWARD_SEED :: "string option"
  VEO_FORWARD_NEGATIVE_PROMPT :: "string option"
  VEO_FORWARD_GENERATE_AUDIO :: "string option"
  VEO_FORWARD_RESOLUTION :: "string option"
  USER_DAILY_QUOTA :: "int option"

text \<open>
  The configuration object as the source builds it. \<^verbatim>\<open>x || 50\<close> takes 50 when
  \<^verbatim>\<open>x\<close> is \<^verbatim>\<open>NaN\<close> or 0.
\<close>

definition the_config :: "process_env \<Rightarrow> config" where
  "the_config env =
     \<lparr> supportedModes = (\<lambda>m. case m of
          TEXT_TO_VIDEO \<Rightarrow> True
        | IMAGE_TO_VIDEO \<Rightarrow> VEO_ENABLE_IMAGE_TO_VIDEO env = Some ''true''
        | VIDEO_TO_VIDEO \<Rightarrow> False),
       forward_fps = (VEO_FORWARD_FPS env = Some ''true''),
       forward_seed = (VEO_FORWARD_SEED env \<noteq> Some ''false''),
       forward_negativePrompt = (VEO_FORWARD_NEGATIVE_PROMPT env \<noteq> Some ''false''),
       forward_generateAudio = (VEO_FORWARD_GENERATE_AUDIO env = Some ''true''),
       forward_resolution = (VEO_FORWARD_RESOLUTION env = Some ''true''),
       default_durationSeconds = 5,
       default_aspectRatio = ''16:9'',
       allowedDurations = [4, 6, 8],
       dailyVideoGenerations =
         (case USER_DAILY_QUOTA env of
            None \<Rightarrow> 50
          | Some n \<Rightarrow> if n = 0 then 50 else n) \<rparr>"

text \<open>A process environment in which none of these variables is set.\<close>

definition env_unset :: process_env where
  "env_unset =
     \<lparr> VEO_ENABLE_IMAGE_TO_VIDEO = None, VEO_FORWARD_FPS = None, VEO_FORWARD_SEED = None,
       VEO_FORWARD_NEGATIVE_PROMPT = None, VEO_FORWARD_GENERATE_AUDIO = None,
       VEO_FORWARD_RESOLUTION = None, USER_DAILY_QUOTA = None \<rparr>"

section \<open>Quota ledger (QuotaService)\<close>

text \<open>
  \<^verbatim>\<open>quotaStore\<close> is a \<^verbatim>\<open>Map\<close> from uid to \<^verbatim>\<open>{ date, count }\<close>. The date key
  is the \<^verbatim>\<open>YYYY-MM-DD\<close> string that \<^verbatim>\<open>getCurrentDateKey\<close> reads off the clock;
  every clock read is a parameter of the model.
\<close>

record quota_entry =
  date :: string
  count :: int

type_synonym quotaStore = "string \<rightharpoonup> quota_entry"

record quota_usage =
  used :: int
  limit :: int
  remaining :: int

text \<open>
  Each method of the service is a function from the store to its return value and the
  store it leaves behind. \<open>getQuotaUsage\<close> has no write.
\<close>

definition getQuotaUsage :: "config \<Rightarrow> string \<Rightarrow> string \<Rightarrow> quotaStore \<Rightarrow> quota_usage \<times> quotaStore" where
  "getQuotaUsage cfg today uid q =
     (let lim = dailyVideoGenerations cfg in
      (case q uid of
         None \<Rightarrow> \<lparr> used = 0, limit = lim, remaining = lim \<rparr>
       | Some userQuota \<Rightarrow>
           if date userQuota \<noteq> today
           then \<lparr> used = 0, limit = lim, remaining = lim \<rparr>
           else \<lparr> used = count userQuota, limit = lim,
                  remaining = max 0 (lim - count userQuota) \<rparr>,
       q))"

definition hasQuotaAvailable :: "config \<Rightarrow> string \<Rightarrow> string \<Rightarrow> quotaStore \<Rightarrow> bool \<times> quotaStore" where
  "hasQuotaAvailable cfg today uid q =
     (let (usage, q1) = getQuotaUsage cfg today uid q in (remaining usage > 0, q1))"

text \<open>
  \<open>consumeQuota\<close> reads the clock itself (\<open>today\<close>, the date it stores) and then
  calls \<open>getQuotaUsage\<close>, which reads it again (\<open>today'\<close>). The throw comes before
  the \<^verbatim>\<open>quotaStore.set\<close>.
\<close>

definition consumeQuota ::
  "config \<Rightarrow> string \<Rightarrow> string \<Rightarrow> string \<Rightarrow> quotaStore \<Rightarrow> (app_error + quota_usage) \<times> quotaStore" where
  "consumeQuota cfg today today' uid q =
     (let (usage, q1) = getQuotaUsage cfg today' uid q in
      if remaining usage \<le> 0
      then (Inl (QuotaExceededError uid (limit usage)), q1)
      else (Inr \<lparr> used = used usage + 1, limit = limit usage,
                  remaining = remaining usage - 1 \<rparr>,
            q1(uid \<mapsto> \<lparr> date = today, count = used usage + 1 \<rparr>)))"

definition resetQuota :: "string \<Rightarrow> quotaStore \<Rightarrow> quotaStore" where
  "resetQuota uid q = q(uid := None)"

definition cleanupOldEntries :: "string \<Rightarrow> quotaStore \<Rightarrow> quotaStore" where
  "cleanupOldEntries today q =
     (\<lambda>uid. case q uid of
        None \<Rightarrow> None
      | Some data \<Rightarrow> if date data \<noteq> today then None else Some data)"

text \<open>
  A run of consume calls, one after the other, all on the day \<open>d\<close>: the results in call
  order and the store after the last call.
\<close>

fun consumeQuota_calls ::
  "config \<Rightarrow> string \<Rightarrow> string list \<Rightarrow> quotaStore \<Rightarrow> (app_error + quota_usage) list \<times> quotaStore" where
  "consumeQuota_calls cfg d [] q = ([], q)"
| "consumeQuota_calls cfg d (uid # uids) q =
     (let (r, q1) = consumeQuota cfg d d uid q;
          (rs, q2) = consumeQuota_calls cfg d uids q1
      in (r # rs, q2))"

text \<open>What the ledger holds for \<open>uid\<close> on day \<open>d\<close>: the \<open>used\<close> of a usage read.\<close>

definition used_today :: "config \<Rightarrow> string \<Rightarrow> string \<Rightarrow> quotaStore \<Rightarrow> int" where
  "used_today cfg d uid q = used (fst (getQuotaUsage cfg d uid q))"

section \<open>Job store (VeoService)\<close>

datatype job_status = PENDING | PROCESSING | COMPLETED | FAILED

text \<open>
  The object \<open>processGenerationResponse\<close> returns. Times are milliseconds since the
  epoch: the ISO string that \<^verbatim>\<open>toISOString\<close> writes reads back, with
  \<^verbatim>\<open>new Date(s).getTime()\<close>, as the millisecond it was written from.
\<close>

record video_result =
  videoUri :: string
  signedUrl :: string
  expiresAt :: int

record job_params =
  jp_prompt :: string
  hasImage :: "bool option"

text \<open>
  A job record is a JavaScript object: every key may be missing (\<open>None\<close>). The same
  type is the \<^verbatim>\<open>updates\<close> argument of \<open>updateJobStatus\<close>, and \<open>empty_object\<close> is
  \<^verbatim>\<open>{}\<close>. Of the values the service writes only \<^verbatim>\<open>user.email\<close> can be
  \<^verbatim>\<open>undefined\<close> (a token with no e-mail address): the key \<open>userEmail\<close> is then
  present with that value, \<open>Some None\<close>, and the spread copies it like any other.
\<close>

record job =
  status :: "job_status option"
  mode :: "mode option"
  createdAt :: "int option"
  userId :: "string option"
  userEmail :: "string option option"
  params :: "job_params option"
  result :: "video_result option"
  error :: "string option"
  completedAt :: "int option"
  jobId :: "string option"

type_synonym jobStore = "string \<rightharpoonup> job"

definition empty_object :: job where
  "empty_object =
     \<lparr> status = None, mode = None, createdAt = None, userId = None, userEmail = None,
       params = None, result = None, error = None, completedAt = None, jobId = None \<rparr>"

text \<open>One key of \<^verbatim>\<open>{ ...existing, ...updates }\<close>: the later object wins where it has the key.\<close>

definition spread_key :: "'a option \<Rightarrow> 'a option \<Rightarrow> 'a option" where
  "spread_key old new = (case new of None \<Rightarrow> old | Some v \<Rightarrow> Some v)"

definition spread :: "job \<Rightarrow> job \<Rightarrow> job" where
  "spread existing updates =
     \<lparr> status = spread_key (status existing) (status updates),
       mode = spread_key (mode existing) (mode updates),
       createdAt = spread_key (createdAt existing) (createdAt updates),
       userId = spread_key (userId existing) (userId updates),
       userEmail = spread_key (userEmail existing) (userEmail updates),
       params = spread_key (params existing) (params updates),
       result = spread_key (result existing) (result updates),
       error = spread_key (error existing) (error updates),
       completedAt = spread_key (completedAt existing) (completedAt updates),
       jobId = spread_key (jobId existing) (jobId updates) \<rparr>"

text \<open>
  \<^verbatim>\<open>const existing = jobStore.get(jobId) || {};
  jobStore.set(jobId, { ...existing, ...updates, jobId });\<close>
\<close>

definition updateJobStatus :: "string \<Rightarrow> job \<Rightarrow> jobStore \<Rightarrow> jobStore" where
  "updateJobStatus jid updates store =
     (let existing = (case store jid of None \<Rightarrow> empty_object | Some j \<Rightarrow> j)
      in store(jid \<mapsto> (spread existing updates)\<lparr> jobId := Some jid \<rparr>))"

text \<open>
  JavaScript truthiness of a string argument that may be \<^verbatim>\<open>null\<close> or
  \<^verbatim>\<open>undefined\<close> (\<open>None\<close>): the empty string is falsy too. Likewise for a number: 0
  is falsy.
\<close>

definition truthy_string :: "string option \<Rightarrow> bool" where
  "truthy_string v = (case v of None \<Rightarrow> False | Some s \<Rightarrow> s \<noteq> [])"

definition truthy_number :: "int option \<Rightarrow> bool" where
  "truthy_number v = (case v of None \<Rightarrow> False | Some n \<Rightarrow> n \<noteq> 0)"

text \<open>
  \<^verbatim>\<open>getJobStatus(jobId, userId = null)\<close>: the ownership check runs only for a truthy
  \<^verbatim>\<open>userId\<close>.
\<close>

definition getJobStatus :: "jobStore \<Rightarrow> string \<Rightarrow> string option \<Rightarrow> job option" where
  "getJobStatus store jid uid =
     (case store jid of
        None \<Rightarrow> None
      | Some j \<Rightarrow> if truthy_string uid \<and> userId j \<noteq> uid then None else Some j)"

text \<open>
  \<^verbatim>\<open>cleanupOldJobs(maxAgeMs = 24 * 60 * 60 * 1000)\<close>. For a record with no
  \<^verbatim>\<open>createdAt\<close> the age is \<^verbatim>\<open>NaN\<close>, and \<^verbatim>\<open>NaN > maxAgeMs\<close> is false.
\<close>

definition cleanupOldJobs :: "int option \<Rightarrow> int \<Rightarrow> jobStore \<Rightarrow> jobStore" where
  "cleanupOldJobs maxAgeMs now store =
     (let maxAge = (case maxAgeMs of None \<Rightarrow> 24 * 60 * 60 * 1000 | Some m \<Rightarrow> m)
      in (\<lambda>jid. case store jid of
            None \<Rightarrow> None
          | Some j \<Rightarrow>
              (case createdAt j of
                 None \<Rightarrow> Some j
               | Some t \<Rightarrow> if now - t > maxAge then None else Some j)))"

text \<open>
  The route \<^verbatim>\<open>GET /v1/video/status/:jobId\<close>: what it answers for a caller. In front
  of the handler stands \<^verbatim>\<open>jobIdValidation\<close>, which answers a job id that is not a
  version 4 UUID with a validation error; its test (\<^verbatim>\<open>isUUID(4)\<close> of
  express-validator, not part of the repository) is the parameter \<open>isUUID\<close>.
  \<open>sr_result\<close> and \<open>sr_error\<close> are the keys added for a COMPLETED or FAILED job.
\<close>

record status_response =
  sr_jobId :: "string option"
  sr_status :: "job_status option"
  sr_mode :: "mode option"
  sr_createdAt :: "int option"
  sr_result :: "video_result option"
  sr_error :: "string option"
  sr_completedAt :: "int option"

definition get_status ::
  "(string \<Rightarrow> bool) \<Rightarrow> jobStore \<Rightarrow> string \<Rightarrow> string \<Rightarrow> app_error + status_response" where
  "get_status isUUID store jid uid =
     (if \<not> isUUID jid then Inl ValidationError
      else case getJobStatus store jid (Some uid) of
        None \<Rightarrow> Inl (NotFoundError (''Job '' @ jid @ '' not found''))
      | Some j \<Rightarrow>
          Inr \<lparr> sr_jobId = jobId j, sr_status = status j, sr_mode = mode j,
                sr_createdAt = createdAt j,
                sr_result = (if status j = Some COMPLETED then result j else None),
                sr_error = (if status j = Some FAILED then error j else None),
                sr_completedAt =
                  (if (status j = Some COMPLETED \<and> result j \<noteq> None) \<or> status j = Some FAILED
                   then completedAt j else None) \<rparr>)"

text \<open>
  The authenticated user the auth middleware attaches to the request, and the four
  update objects the service passes to \<open>updateJobStatus\<close>: the initial record of
  \<^verbatim>\<open>generateFromText\<close> and \<^verbatim>\<open>generateFromImage\<close>, the start and the success of
  \<^verbatim>\<open>executeGeneration\<close>, and the failure handler's.
\<close>

record user =
  uid :: string
  email :: "string option"

definition pending_update :: "mode \<Rightarrow> int \<Rightarrow> user \<Rightarrow> job_params \<Rightarrow> job" where
  "pending_update m now u p =
     empty_object\<lparr> status := Some PENDING, mode := Some m, createdAt := Some now,
                   userId := Some (uid u), userEmail := Some (email u), params := Some p \<rparr>"

definition processing_update :: job where
  "processing_update = empty_object\<lparr> status := Some PROCESSING \<rparr>"

definition completed_update :: "video_result \<Rightarrow> int \<Rightarrow> job" where
  "completed_update res now =
     empty_object\<lparr> status := Some COMPLETED, result := Some res, completedAt := Some now \<rparr>"

definition failed_update :: "string \<Rightarrow> int \<Rightarrow> job" where
  "failed_update msg now =
     empty_object\<lparr> status := Some FAILED, error := Some msg, completedAt := Some now \<rparr>"

section \<open>Request building (VeoService)\<close>

text \<open>
  The \<^verbatim>\<open>params\<close> object the route handlers build from the request body. A key the
  body does not have is \<^verbatim>\<open>undefined\<close> (\<open>None\<close>). The validators admit only
  integers for \<^verbatim>\<open>durationSeconds\<close>, \<^verbatim>\<open>fps\<close> and \<^verbatim>\<open>seed\<close> and only
  booleans for \<^verbatim>\<open>generateAudio\<close>, and reject \<^verbatim>\<open>null\<close>.
\<close>

record gen_params =
  prompt :: string
  durationSeconds :: "int option"
  aspectRatio :: "string option"
  fps :: "int option"
  cameraStyle :: "string option"
  motionLevel :: "string option"
  lighting :: "string option"
  quality :: "string option"
  seed :: "int option"
  negativePrompt :: "string option"
  generateAudio :: "bool option"
  imageBase64 :: "string option"
  imageMimeType :: "string option"

text \<open>The \<^verbatim>\<open>parameters\<close> object sent to the provider.\<close>

record request_parameters =
  rp_aspectRatio :: string
  rp_durationSeconds :: int
  rp_fps :: "int option"
  rp_negativePrompt :: "string option"
  rp_seed :: "int option"
  rp_generateAudio :: "bool option"
  rp_resolution :: "string option"

text \<open>\<^verbatim>\<open>parts.join(sep)\<close>.\<close>

fun join :: "string \<Rightarrow> string list \<Rightarrow> string" where
  "join sep [] = []"
| "join sep [p] = p"
| "join sep (p # ps) = p @ sep @ join sep ps"

definition buildEnhancedPrompt :: "gen_params \<Rightarrow> string" where
  "buildEnhancedPrompt ps =
     join ''. ''
       ([prompt ps]
        @ (if truthy_string (cameraStyle ps) then [''Camera style: '' @ the (cameraStyle ps)] else [])
        @ (if truthy_string (motionLevel ps) then [''Motion: '' @ the (motionLevel ps)] else [])
        @ (if truthy_string (lighting ps) then [''Lighting: '' @ the (lighting ps)] else []))"

text \<open>
  \<^verbatim>\<open>array.reduce(f)\<close> with no initial value: the first element starts the
  accumulator, and an empty array throws a \<open>TypeError\<close>.
\<close>

definition reduce :: "('a \<Rightarrow> 'a \<Rightarrow> 'a) \<Rightarrow> 'a list \<Rightarrow> app_error + 'a" where
  "reduce f xs = (case xs of [] \<Rightarrow> Inl TypeError | x # rest \<Rightarrow> Inr (foldl f x rest))"

definition normalizeDuration :: "config \<Rightarrow> int option \<Rightarrow> app_error + int" where
  "normalizeDuration cfg duration =
     (let requested = (if truthy_number duration then the duration
                       else default_durationSeconds cfg);
          allowed = allowedDurations cfg
      in reduce (\<lambda>prev curr.
                   if \<bar>curr - requested\<bar> < \<bar>prev - requested\<bar> then curr else prev)
                allowed)"

definition buildRequestParameters :: "config \<Rightarrow> gen_params \<Rightarrow> app_error + request_parameters" where
  "buildRequestParameters cfg ps =
     (case normalizeDuration cfg (durationSeconds ps) of
        Inl e \<Rightarrow> Inl e
      | Inr dur \<Rightarrow>
          Inr \<lparr> rp_aspectRatio =
                  (if truthy_string (aspectRatio ps) then the (aspectRatio ps)
                   else default_aspectRatio cfg),
                rp_durationSeconds = dur,
                rp_fps = (if forward_fps cfg \<and> truthy_number (fps ps) then fps ps else None),
                rp_negativePrompt =
                  (if forward_negativePrompt cfg \<and> truthy_string (negativePrompt ps)
                   then negativePrompt ps else None),
                rp_seed = (if forward_seed cfg \<and> seed ps \<noteq> None then seed ps else None),
                rp_generateAudio =
                  (if forward_generateAudio cfg \<and> generateAudio ps \<noteq> None
                   then generateAudio ps else None),
                rp_resolution =
                  (if forward_resolution cfg \<and> quality ps = Some ''high''
                   then Some ''1080p'' else None) \<rparr>)"

text \<open>The \<^verbatim>\<open>params\<close> of a request body that holds a prompt and nothing else.\<close>

definition prompt_only :: "string \<Rightarrow> gen_params" where
  "prompt_only p =
     \<lparr> prompt = p, durationSeconds = None, aspectRatio = None, fps = None,
       cameraStyle = None, motionLevel = None, lighting = None, quality = None,
       seed = None, negativePrompt = None, generateAudio = None,
       imageBase64 = None, imageMimeType = None \<rparr>"

section \<open>Generation orchestration (VeoService and the video routes)\<close>

text \<open>\<^verbatim>\<open>config.veo.supportedModes[mode] === true\<close>.\<close>

definition isModeSupported :: "config \<Rightarrow> mode \<Rightarrow> bool" where
  "isModeSupported cfg m = (supportedModes cfg m = True)"

text \<open>
  A request to the provider (\<^verbatim>\<open>predictionServiceClient.predict\<close>): the prompt of
  the one instance, its image (bytes and MIME type) for the image mode, and the
  parameters. The endpoint is fixed per deployment and left out, as is the encoding of
  the parameters by \<^verbatim>\<open>structToValue\<close>.
\<close>

record provider_call =
  pc_prompt :: string
  pc_image :: "(string option \<times> string) option"
  pc_parameters :: request_parameters

text \<open>
  The calls a request makes that write to a ledger or reach the provider, in the order
  the code makes them. The trace is what an observer of those calls writes down; the
  program itself keeps no such list. \<open>isModeSupported\<close> only reads the configuration
  and leaves no event.
\<close>

datatype event =
    ConsumeQuota string
  | UpdateJobStatus string "job_status option"
  | Predict provider_call

definition is_predict :: "event \<Rightarrow> bool" where
  "is_predict e = (case e of Predict c \<Rightarrow> True | _ \<Rightarrow> False)"

text \<open>
  The promise of the detached generation of a job, with its \<^verbatim>\<open>.catch\<close> callback:
  waiting for the provider and the storage (\<open>Awaiting\<close>), rejected with the callback
  still to run (\<open>Rejected\<close>, with the message of the \<open>VeoApiError\<close>), or done.
\<close>

datatype task = Awaiting | Rejected string | Settled

record world =
  jobStore :: jobStore
  quotaStore :: quotaStore
  tasks :: "string \<rightharpoonup> task"
  trace :: "event list"

definition init_world :: world where
  "init_world = \<lparr> jobStore = Map.empty, quotaStore = Map.empty, tasks = Map.empty, trace = [] \<rparr>"

text \<open>The two ledger calls, on the world.\<close>

definition call_updateJobStatus :: "string \<Rightarrow> job \<Rightarrow> world \<Rightarrow> world" where
  "call_updateJobStatus jid updates w =
     w\<lparr> jobStore := updateJobStatus jid updates (jobStore w),
        trace := trace w @ [UpdateJobStatus jid (status updates)] \<rparr>"

definition call_consumeQuota ::
  "config \<Rightarrow> string \<Rightarrow> string \<Rightarrow> string \<Rightarrow> world \<Rightarrow> (app_error + quota_usage) \<times> world" where
  "call_consumeQuota cfg today today' who w =
     (let (r, q1) = consumeQuota cfg today today' who (quotaStore w)
      in (r, w\<lparr> quotaStore := q1, trace := trace w @ [ConsumeQuota who] \<rparr>))"

text \<open>
  \<^verbatim>\<open>executeGeneration\<close> and \<^verbatim>\<open>executeImageGeneration\<close> are \<^verbatim>\<open>async\<close>: a call
  runs the body up to the first \<^verbatim>\<open>await\<close> before it returns its promise. That part
  sets the status PROCESSING, builds the prompt and the parameters and calls
  \<^verbatim>\<open>predict\<close>. A throw in it (the \<open>TypeError\<close> of \<open>normalizeDuration\<close>) is caught
  and rethrown as a \<open>VeoApiError\<close> with the same message, which rejects the promise.
  \<open>img\<close> is the image of the instance, absent in the text mode.
\<close>

definition executeGeneration_start ::
  "config \<Rightarrow> string \<Rightarrow> gen_params \<Rightarrow> (string option \<times> string) option \<Rightarrow> world \<Rightarrow> world" where
  "executeGeneration_start cfg jid ps img w =
     (let w1 = call_updateJobStatus jid processing_update w;
          enhanced = buildEnhancedPrompt ps
      in case buildRequestParameters cfg ps of
           Inl e \<Rightarrow>
             w1\<lparr> tasks := (tasks w1)(jid \<mapsto> Rejected ''Reduce of empty array with no initial value'') \<rparr>
         | Inr requestParameters \<Rightarrow>
             w1\<lparr> trace := trace w1 @ [Predict \<lparr> pc_prompt = enhanced, pc_image = img,
                                                pc_parameters = requestParameters \<rparr>],
                 tasks := (tasks w1)(jid \<mapsto> Awaiting) \<rparr>)"

text \<open>
  The rest of \<^verbatim>\<open>executeGeneration\<close> (and of \<^verbatim>\<open>executeImageGeneration\<close>, which
  has the same shape), run when the awaited calls are done. If
  the provider call and \<open>processGenerationResponse\<close> (upload, URL signing) returned
  \<open>res\<close>, the job is set to COMPLETED. If one of them threw, the \<^verbatim>\<open>catch\<close> block
  rethrows a \<open>VeoApiError\<close> with the message and the promise is rejected.
\<close>

definition executeGeneration_resolved :: "string \<Rightarrow> video_result \<Rightarrow> int \<Rightarrow> world \<Rightarrow> world" where
  "executeGeneration_resolved jid res now w =
     (let w1 = call_updateJobStatus jid (completed_update res now) w
      in w1\<lparr> tasks := (tasks w1)(jid \<mapsto> Settled) \<rparr>)"

definition executeGeneration_rejected :: "string \<Rightarrow> string \<Rightarrow> world \<Rightarrow> world" where
  "executeGeneration_rejected jid msg w = w\<lparr> tasks := (tasks w)(jid \<mapsto> Rejected msg) \<rparr>"

text \<open>
  The \<^verbatim>\<open>.catch\<close> callback that \<^verbatim>\<open>generateFromText\<close> and
  \<^verbatim>\<open>generateFromImage\<close> attach to the promise.
\<close>

definition generation_failed :: "string \<Rightarrow> string \<Rightarrow> int \<Rightarrow> world \<Rightarrow> world" where
  "generation_failed jid msg now w =
     (let w1 = call_updateJobStatus jid (failed_update msg now) w
      in w1\<lparr> tasks := (tasks w1)(jid \<mapsto> Settled) \<rparr>)"

text \<open>
  \<^verbatim>\<open>executeGeneration(...).catch(callback)\<close>, as the caller that awaits
  \<^verbatim>\<open>generateFromText\<close> finds it. If the start of the generation threw, the promise
  is rejected already when \<^verbatim>\<open>.catch\<close> attaches the callback; the callback is
  queued at once, ahead of the continuation of the awaiting caller, and has run (at
  the clock read \<open>later\<close>) when that caller resumes. Otherwise the promise is pending
  and nothing runs.
\<close>

definition catch_attached :: "string \<Rightarrow> int \<Rightarrow> world \<Rightarrow> world" where
  "catch_attached jid later w =
     (case tasks w jid of
        Some (Rejected msg) \<Rightarrow> generation_failed jid msg later w
      | _ \<Rightarrow> w)"

text \<open>
  \<^verbatim>\<open>generateFromText(params, user)\<close>. \<open>jid\<close> is the value \<^verbatim>\<open>uuidv4()\<close> returns
  and \<open>now\<close> the clock read for \<^verbatim>\<open>createdAt\<close>. The function has no \<^verbatim>\<open>await\<close>:
  the start of \<^verbatim>\<open>executeGeneration\<close> has run when it returns. The result is the
  value and the world its awaiting caller resumes with.
\<close>

definition generateFromText ::
  "config \<Rightarrow> gen_params \<Rightarrow> user \<Rightarrow> string \<Rightarrow> int \<Rightarrow> int \<Rightarrow> world \<Rightarrow> (app_error + string) \<times> world" where
  "generateFromText cfg ps u jid now later w =
     (if \<not> isModeSupported cfg TEXT_TO_VIDEO
      then (Inl (UnsupportedModeError TEXT_TO_VIDEO), w)
      else
        (let w1 = call_updateJobStatus jid
                    (pending_update TEXT_TO_VIDEO now u
                       \<lparr> jp_prompt = prompt ps, hasImage = None \<rparr>) w;
             w2 = executeGeneration_start cfg jid ps None w1;
             w3 = catch_attached jid later w2
         in (Inr jid, w3)))"

definition generateFromImage ::
  "config \<Rightarrow> gen_params \<Rightarrow> user \<Rightarrow> string \<Rightarrow> int \<Rightarrow> int \<Rightarrow> world \<Rightarrow> (app_error + string) \<times> world" where
  "generateFromImage cfg ps u jid now later w =
     (if \<not> isModeSupported cfg IMAGE_TO_VIDEO
      then (Inl (UnsupportedModeError IMAGE_TO_VIDEO), w)
      else
        (let w1 = call_updateJobStatus jid
                    (pending_update IMAGE_TO_VIDEO now u
                       \<lparr> jp_prompt = prompt ps, hasImage = Some True \<rparr>) w;
             w2 = executeGeneration_start cfg jid ps
                    (Some (imageBase64 ps,
                           if truthy_string (imageMimeType ps) then the (imageMimeType ps)
                           else ''image/png'')) w1;
             w3 = catch_attached jid later w2
         in (Inr jid, w3)))"

definition generateFromVideo ::
  "config \<Rightarrow> gen_params \<Rightarrow> user \<Rightarrow> world \<Rightarrow> (app_error + string) \<times> world" where
  "generateFromVideo cfg ps u w =
     (if \<not> isModeSupported cfg VIDEO_TO_VIDEO
      then (Inl (UnsupportedModeError VIDEO_TO_VIDEO), w)
      else (Inl (UnsupportedModeError VIDEO_TO_VIDEO), w))"

text \<open>
  A request to one of the generation routes, past authentication: the user, the body,
  the verdicts of the two middlewares in front of the handler
  (\<^verbatim>\<open>videoGenerationLimiter\<close>, then the validators), and what the handler reads from
  outside: the uuid, the clock for \<^verbatim>\<open>createdAt\<close>, the clock read of the failure
  callback should the start of the generation throw, and the two date reads of
  \<open>consumeQuota\<close>.
\<close>

record request =
  r_user :: user
  r_body :: gen_params
  r_limiter_admits :: bool
  r_validations_pass :: bool
  r_uuid :: string
  r_now :: int
  r_later :: int
  r_today :: string
  r_today' :: string

text \<open>The data of the 202 response.\<close>

record accepted =
  a_jobId :: string
  a_status :: job_status
  a_mode :: mode
  a_quota :: "quota_usage option"

text \<open>\<^verbatim>\<open>POST /v1/video/text\<close>: the limiter, the validators, then the handler.\<close>

definition post_text :: "config \<Rightarrow> request \<Rightarrow> world \<Rightarrow> (app_error + accepted) \<times> world" where
  "post_text cfg rq w =
     (if \<not> r_limiter_admits rq then (Inl RateLimitExceeded, w)
      else if \<not> r_validations_pass rq then (Inl ValidationError, w)
      else
        (case call_consumeQuota cfg (r_today rq) (r_today' rq) (uid (r_user rq)) w of
           (Inl e, w1) \<Rightarrow> (Inl e, w1)
         | (Inr quotaUsage, w1) \<Rightarrow>
             (case generateFromText cfg (r_body rq) (r_user rq) (r_uuid rq) (r_now rq)
                     (r_later rq) w1 of
                (Inl e, w2) \<Rightarrow> (Inl e, w2)
              | (Inr jid, w2) \<Rightarrow>
                  (Inr \<lparr> a_jobId = jid, a_status = PENDING, a_mode = TEXT_TO_VIDEO,
                         a_quota = Some quotaUsage \<rparr>, w2))))"

text \<open>\<^verbatim>\<open>POST /v1/video/image\<close>: this handler checks the mode before the quota.\<close>

definition post_image :: "config \<Rightarrow> request \<Rightarrow> world \<Rightarrow> (app_error + accepted) \<times> world" where
  "post_image cfg rq w =
     (if \<not> r_limiter_admits rq then (Inl RateLimitExceeded, w)
      else if \<not> r_validations_pass rq then (Inl ValidationError, w)
      else
        (if \<not> isModeSupported cfg IMAGE_TO_VIDEO
         then (Inl (UnsupportedModeError IMAGE_TO_VIDEO), w)
         else
           (case call_consumeQuota cfg (r_today rq) (r_today' rq) (uid (r_user rq)) w of
              (Inl e, w1) \<Rightarrow> (Inl e, w1)
            | (Inr quotaUsage, w1) \<Rightarrow>
                (case generateFromImage cfg (r_body rq) (r_user rq) (r_uuid rq) (r_now rq)
                        (r_later rq) w1 of
                   (Inl e, w2) \<Rightarrow> (Inl e, w2)
                 | (Inr jid, w2) \<Rightarrow>
                     (Inr \<lparr> a_jobId = jid, a_status = PENDING, a_mode = IMAGE_TO_VIDEO,
                            a_quota = Some quotaUsage \<rparr>, w2)))))"

text \<open>\<^verbatim>\<open>POST /v1/video/video\<close>: no quota call at all.\<close>

definition post_video :: "config \<Rightarrow> request \<Rightarrow> world \<Rightarrow> (app_error + accepted) \<times> world" where
  "post_video cfg rq w =
     (if \<not> r_limiter_admits rq then (Inl RateLimitExceeded, w)
      else if \<not> r_validations_pass rq then (Inl ValidationError, w)
      else
        (case generateFromVideo cfg (r_body rq) (r_user rq) w of
           (Inl e, w1) \<Rightarrow> (Inl e, w1)
         | (Inr jid, w1) \<Rightarrow>
             (Inr \<lparr> a_jobId = jid, a_status = PENDING, a_mode = VIDEO_TO_VIDEO,
                    a_quota = None \<rparr>, w1)))"

text \<open>The hourly cleanup of the server: both sweeps, the job sweep with its default age.\<close>

definition periodic_cleanup :: "int \<Rightarrow> string \<Rightarrow> world \<Rightarrow> world" where
  "periodic_cleanup now today w =
     w\<lparr> jobStore := cleanupOldJobs None now (jobStore w),
        quotaStore := cleanupOldEntries today (quotaStore w) \<rparr>"

text \<open>
  The worlds the server can be in: it starts with empty ledgers, and each step is one
  request to a generation route (with a uuid never drawn before), the completion or
  the failure of a detached generation that is waiting, the failure callback of a
  rejected one, or a cleanup. The status route only reads.
\<close>

inductive reachable :: "config \<Rightarrow> world \<Rightarrow> bool" for cfg :: config where
  at_start: "reachable cfg init_world"
| on_post_text: "reachable cfg w \<Longrightarrow> r_uuid rq \<notin> dom (tasks w) \<Longrightarrow>
           reachable cfg (snd (post_text cfg rq w))"
| on_post_image: "reachable cfg w \<Longrightarrow> r_uuid rq \<notin> dom (tasks w) \<Longrightarrow>
           reachable cfg (snd (post_image cfg rq w))"
| on_post_video: "reachable cfg w \<Longrightarrow> reachable cfg (snd (post_video cfg rq w))"
| on_resolved: "reachable cfg w \<Longrightarrow> tasks w jid = Some Awaiting \<Longrightarrow>
           reachable cfg (executeGeneration_resolved jid res now w)"
| on_rejected: "reachable cfg w \<Longrightarrow> tasks w jid = Some Awaiting \<Longrightarrow>
           reachable cfg (executeGeneration_rejected jid msg w)"
| on_failed: "reachable cfg w \<Longrightarrow> tasks w jid = Some (Rejected msg) \<Longrightarrow>
           reachable cfg (generation_failed jid msg now w)"
| on_cleanup: "reachable cfg w \<Longrightarrow> reachable cfg (periodic_cleanup now today w)"

text \<open>
  What an admitted generation request does to jobs and tasks: it adds one job, under
  its uuid, that has gone through creation and the start of the detached generation,
  and through the failure callback if that start threw.
\<close>

definition admitted_step :: "config \<Rightarrow> request \<Rightarrow> mode \<Rightarrow> job_params \<Rightarrow> world \<Rightarrow> world \<Rightarrow> bool" where
  "admitted_step cfg rq m p w w' =
     (let started = updateJobStatus (r_uuid rq) processing_update
                      (updateJobStatus (r_uuid rq) (pending_update m (r_now rq) (r_user rq) p)
                         (jobStore w))
      in case buildRequestParameters cfg (r_body rq) of
           Inr rp \<Rightarrow>
             jobStore w' = started \<and> tasks w' = (tasks w)(r_uuid rq \<mapsto> Awaiting)
         | Inl e \<Rightarrow>
             jobStore w' = updateJobStatus (r_uuid rq)
                             (failed_update ''Reduce of empty array with no initial value''
                                (r_later rq)) started
             \<and> tasks w' = (tasks w)(r_uuid rq \<mapsto> Settled))"

text \<open>
  The invariant of claim C5 on one job record, and what holds of a record while its
  generation is still in flight.
\<close>

definition result_error_ok :: "job \<Rightarrow> bool" where
  "result_error_ok j =
     ((status j = Some COMPLETED \<longrightarrow> result j \<noteq> None \<and> error j = None)
      \<and> (status j = Some FAILED \<longrightarrow> error j \<noteq> None \<and> result j = None)
      \<and> (status j = Some PENDING \<or> status j = Some PROCESSING \<longrightarrow>
           result j = None \<and> error j = None))"

definition in_flight :: "task option \<Rightarrow> bool" where
  "in_flight t = (case t of Some Awaiting \<Rightarrow> True | Some (Rejected msg) \<Rightarrow> True | _ \<Rightarrow> False)"

definition job_matches_task :: "task option \<Rightarrow> job \<Rightarrow> bool" where
  "job_matches_task t j =
     (t \<noteq> None
      \<and> status j \<noteq> None
      \<and> result_error_ok j
      \<and> (in_flight t \<longrightarrow> status j = Some PROCESSING))"

definition world_ok :: "world \<Rightarrow> bool" where
  "world_ok w = (\<forall>jid j. jobStore w jid = Some j \<longrightarrow> job_matches_task (tasks w jid) j)"

text \<open>
  A request that both middlewares admit, with a body that holds only a prompt, whose
  clock reads all give the same time and day.
\<close>

definition request_of :: "string \<Rightarrow> string \<Rightarrow> string \<Rightarrow> int \<Rightarrow> string \<Rightarrow> request" where
  "request_of who p jid now today =
     \<lparr> r_user = \<lparr> uid = who, email = None \<rparr>, r_body = prompt_only p,
       r_limiter_admits = True, r_validations_pass = True, r_uuid = jid, r_now = now,
       r_later = now, r_today = today, r_today' = today \<rparr>"




section \<open>Quota ledger: properties\<close>

lemma used_today_simps:
  "q who = None \<Longrightarrow> used_today cfg d who q = 0"
  "q who = Some e \<Longrightarrow> date e \<noteq> d \<Longrightarrow> used_today cfg d who q = 0"
  "q who = Some e \<Longrightarrow> date e = d \<Longrightarrow> used_today cfg d who q = count e"
  by (simp_all add: used_today_def getQuotaUsage_def Let_def)

lemma consumeQuota_step:
  "consumeQuota cfg d d who q =
     (if used_today cfg d who q < dailyVideoGenerations cfg
      then (Inr \<lparr> used = used_today cfg d who q + 1, limit = dailyVideoGenerations cfg,
                  remaining = dailyVideoGenerations cfg - used_today cfg d who q - 1 \<rparr>,
            q(who \<mapsto> \<lparr> date = d, count = used_today cfg d who q + 1 \<rparr>))
      else (Inl (QuotaExceededError who (dailyVideoGenerations cfg)), q))"
  by (auto simp: consumeQuota_def getQuotaUsage_def used_today_def Let_def
           split: option.splits)

lemma used_today_after_set:
  "used_today cfg d who (q(who \<mapsto> \<lparr> date = d, count = c \<rparr>)) = c"
  by (simp add: used_today_def getQuotaUsage_def Let_def)

lemma upt_0_Suc_map: "[0..<Suc k] = 0 # map Suc [0..<k]"
  by (metis map_Suc_upt upt_conv_Cons zero_less_Suc)

lemma consumeQuota_calls_replicate:
  "consumeQuota_calls cfg d (replicate n who) q =
     (map (\<lambda>i. Inr \<lparr> used = used_today cfg d who q + 1 + int i,
                       limit = dailyVideoGenerations cfg,
                       remaining = dailyVideoGenerations cfg - (used_today cfg d who q + 1 + int i) \<rparr>)
          [0..<min n (nat (dailyVideoGenerations cfg - used_today cfg d who q))]
      @ replicate (n - min n (nat (dailyVideoGenerations cfg - used_today cfg d who q)))
          (Inl (QuotaExceededError who (dailyVideoGenerations cfg))),
      if min n (nat (dailyVideoGenerations cfg - used_today cfg d who q)) = 0 then q
      else q(who \<mapsto> \<lparr> date = d,
             count = used_today cfg d who q
                     + int (min n (nat (dailyVideoGenerations cfg - used_today cfg d who q))) \<rparr>))"
proof (induction n arbitrary: q)
  case 0
  show ?case by simp
next
  case (Suc n)
  let ?lim = "dailyVideoGenerations cfg"
  let ?u = "used_today cfg d who q"
  show ?case
  proof (cases "?u < ?lim")
    case False
    then have k0: "nat (?lim - ?u) = 0" by simp
    from False have step: "consumeQuota cfg d d who q = (Inl (QuotaExceededError who ?lim), q)"
      by (simp add: consumeQuota_step)
    show ?thesis
      using Suc.IH [of q] by (simp add: step k0)
  next
    case True
    let ?q1 = "q(who \<mapsto> \<lparr> date = d, count = ?u + 1 \<rparr>)"
    from True have step: "consumeQuota cfg d d who q =
        (Inr \<lparr> used = ?u + 1, limit = ?lim, remaining = ?lim - ?u - 1 \<rparr>, ?q1)"
      by (simp add: consumeQuota_step)
    have u1: "used_today cfg d who ?q1 = ?u + 1"
      by (rule used_today_after_set)
    from True obtain j where j: "nat (?lim - ?u) = Suc j" "nat (?lim - (?u + 1)) = j"
      by (cases "nat (?lim - ?u)") auto
    have m: "min (Suc n) (Suc j) = Suc (min n j)" by simp
    have a: "\<And>i. ?u + 1 + 1 + int i = ?u + 1 + int (Suc i)" by simp
    note ih = Suc.IH [of ?q1, unfolded u1 j a]
    show ?thesis
      unfolding replicate_Suc consumeQuota_calls.simps step j m upt_0_Suc_map
      by (simp add: ih o_def del: upt_Suc of_nat_Suc) (auto simp: fun_eq_iff)
  qed
qed

lemma used_today_after_calls:
  "used_today cfg d who (snd (consumeQuota_calls cfg d (replicate n who) q)) =
     used_today cfg d who q
       + int (min n (nat (dailyVideoGenerations cfg - used_today cfg d who q)))"
  by (simp add: consumeQuota_calls_replicate used_today_after_set)

lemma successes_of_calls:
  "length (filter (\<lambda>r. \<not> isl r) (fst (consumeQuota_calls cfg d (replicate n who) q))) =
     min n (nat (dailyVideoGenerations cfg - used_today cfg d who q))"
  by (simp add: consumeQuota_calls_replicate o_def)

text \<open>
  Claim C1. On one day, a consume call for an identity succeeds exactly when the count the
  ledger holds for that identity today is below the configured daily limit. A successful
  call returns \<open>used\<close> = previous \<open>used\<close> + 1 and stores that count, which is at most the
  limit; a failing call throws \<open>QuotaExceededError\<close> and leaves the ledger as it was.
  Of \<open>n\<close> calls in a row for one identity, the first \<open>min n (limit - used)\<close> succeed and all
  later ones fail; for an identity with no usage today and \<open>n\<close> above the limit, exactly
  \<open>limit\<close> calls succeed. A count within the limit stays within the limit.
\<close>

theorem consumeQuota_never_exceeds_limit:
  assumes "lim = dailyVideoGenerations cfg"
    and "u0 = used_today cfg d who q"
    and "k = min n (nat (lim - u0))"
  shows "consumeQuota cfg d d who q =
           (if u0 < lim
            then (Inr \<lparr> used = u0 + 1, limit = lim, remaining = lim - u0 - 1 \<rparr>,
                  q(who \<mapsto> \<lparr> date = d, count = u0 + 1 \<rparr>))
            else (Inl (QuotaExceededError who lim), q))
       \<and> consumeQuota_calls cfg d (replicate n who) q =
           (map (\<lambda>i. Inr \<lparr> used = u0 + 1 + int i, limit = lim,
                             remaining = lim - (u0 + 1 + int i) \<rparr>) [0..<k]
              @ replicate (n - k) (Inl (QuotaExceededError who lim)),
            if k = 0 then q else q(who \<mapsto> \<lparr> date = d, count = u0 + int k \<rparr>))
       \<and> (0 < k \<longrightarrow> u0 + int k \<le> lim)
       \<and> (u0 \<le> lim \<longrightarrow>
            used_today cfg d who (snd (consumeQuota_calls cfg d (replicate n who) q)) \<le> lim)
       \<and> (u0 = 0 \<and> 0 \<le> lim \<and> lim < int n \<longrightarrow>
            int (length (filter (\<lambda>r. \<not> isl r)
                   (fst (consumeQuota_calls cfg d (replicate n who) q)))) = lim)"
proof (intro conjI impI)
  show "consumeQuota cfg d d who q =
           (if u0 < lim
            then (Inr \<lparr> used = u0 + 1, limit = lim, remaining = lim - u0 - 1 \<rparr>,
                  q(who \<mapsto> \<lparr> date = d, count = u0 + 1 \<rparr>))
            else (Inl (QuotaExceededError who lim), q))"
    unfolding assms by (rule consumeQuota_step)
  show "consumeQuota_calls cfg d (replicate n who) q =
           (map (\<lambda>i. Inr \<lparr> used = u0 + 1 + int i, limit = lim,
                             remaining = lim - (u0 + 1 + int i) \<rparr>) [0..<k]
              @ replicate (n - k) (Inl (QuotaExceededError who lim)),
            if k = 0 then q else q(who \<mapsto> \<lparr> date = d, count = u0 + int k \<rparr>))"
    unfolding assms by (rule consumeQuota_calls_replicate)
  show "u0 + int k \<le> lim" if "0 < k"
    using that assms(3) by linarith
  show "used_today cfg d who (snd (consumeQuota_calls cfg d (replicate n who) q)) \<le> lim"
    if "u0 \<le> lim"
    using that unfolding used_today_after_calls assms by linarith
  show "int (length (filter (\<lambda>r. \<not> isl r)
               (fst (consumeQuota_calls cfg d (replicate n who) q)))) = lim"
    if "u0 = 0 \<and> 0 \<le> lim \<and> lim < int n"
    using that unfolding successes_of_calls assms by linarith
qed

text \<open>
  Daily limit 2, an identity with no record, three calls: two succeed with
  \<open>used\<close> 1 and 2, the third fails, and the ledger holds the count 2.
\<close>

theorem consumeQuota_never_exceeds_limit_witness:
  "consumeQuota (the_config (env_unset\<lparr> USER_DAILY_QUOTA := Some 2 \<rparr>))
      ''2026-01-05'' ''2026-01-05'' ''alice'' Map.empty =
      (Inr \<lparr> used = 1, limit = 2, remaining = 1 \<rparr>,
       [''alice'' \<mapsto> \<lparr> date = ''2026-01-05'', count = 1 \<rparr>])
   \<and> consumeQuota_calls (the_config (env_unset\<lparr> USER_DAILY_QUOTA := Some 2 \<rparr>))
      ''2026-01-05'' (replicate 3 ''alice'') Map.empty =
      ([Inr \<lparr> used = 1, limit = 2, remaining = 1 \<rparr>,
        Inr \<lparr> used = 2, limit = 2, remaining = 0 \<rparr>,
        Inl (QuotaExceededError ''alice'' 2)],
       [''alice'' \<mapsto> \<lparr> date = ''2026-01-05'', count = 2 \<rparr>])
   \<and> int (length (filter (\<lambda>r. \<not> isl r)
          (fst (consumeQuota_calls (the_config (env_unset\<lparr> USER_DAILY_QUOTA := Some 2 \<rparr>))
             ''2026-01-05'' (replicate 3 ''alice'') Map.empty)))) = 2"
proof -
  let ?cfg = "the_config (env_unset\<lparr> USER_DAILY_QUOTA := Some 2 \<rparr>)"
  have lim: "(2::int) = dailyVideoGenerations ?cfg"
    by (simp add: the_config_def env_unset_def)
  have u0: "(0::int) = used_today ?cfg ''2026-01-05'' ''alice'' Map.empty"
    by (simp add: used_today_simps)
  have k: "(2::nat) = min 3 (nat (2 - (0::int)))"
    by simp
  have up: "[0..<2] = [0, Suc 0]"
    by (simp add: upt_rec)
  show ?thesis
    using consumeQuota_never_exceeds_limit [OF lim u0 k]
    by (simp add: up)
qed

text \<open>
  Claim C8. For an identity with no quota record for the current day (no record, or a
  record whose stored date is not today), the usage read returns \<open>used\<close> 0 and both
  \<open>limit\<close> and \<open>remaining\<close> equal to the configured daily limit, and leaves the ledger as
  it was.
\<close>

theorem getQuotaUsage_no_record_today:
  assumes "q who = None \<or> (\<exists>e. q who = Some e \<and> date e \<noteq> today)"
  shows "getQuotaUsage cfg today who q =
           (\<lparr> used = 0, limit = dailyVideoGenerations cfg,
              remaining = dailyVideoGenerations cfg \<rparr>, q)"
  using assms by (auto simp: getQuotaUsage_def Let_def)

theorem getQuotaUsage_no_record_today_witness:
  "getQuotaUsage (the_config env_unset) ''2026-01-05'' ''bob''
       [''bob'' \<mapsto> \<lparr> date = ''2026-01-04'', count = 7 \<rparr>] =
     (\<lparr> used = 0, limit = 50, remaining = 50 \<rparr>,
      [''bob'' \<mapsto> \<lparr> date = ''2026-01-04'', count = 7 \<rparr>])
   \<and> getQuotaUsage (the_config env_unset) ''2026-01-05'' ''bob'' Map.empty =
     (\<lparr> used = 0, limit = 50, remaining = 50 \<rparr>,
      Map.empty)"
proof
  have "[''bob'' \<mapsto> \<lparr> date = ''2026-01-04'', count = 7 \<rparr>] ''bob'' = None
      \<or> (\<exists>e. [''bob'' \<mapsto> \<lparr> date = ''2026-01-04'', count = 7 \<rparr>] ''bob'' = Some e
             \<and> date e \<noteq> ''2026-01-05'')"
    by simp
  then show "getQuotaUsage (the_config env_unset) ''2026-01-05'' ''bob''
       [''bob'' \<mapsto> \<lparr> date = ''2026-01-04'', count = 7 \<rparr>] =
     (\<lparr> used = 0, limit = 50, remaining = 50 \<rparr>,
      [''bob'' \<mapsto> \<lparr> date = ''2026-01-04'', count = 7 \<rparr>])"
    using getQuotaUsage_no_record_today [of _ "''bob''" "''2026-01-05''" "the_config env_unset"]
    by (simp add: the_config_def env_unset_def)
next
  have "(Map.empty :: quotaStore) ''bob'' = None
      \<or> (\<exists>e. (Map.empty :: quotaStore) ''bob'' = Some e \<and> date e \<noteq> ''2026-01-05'')"
    by simp
  then show "getQuotaUsage (the_config env_unset) ''2026-01-05'' ''bob'' Map.empty =
     (\<lparr> used = 0, limit = 50, remaining = 50 \<rparr>,
      Map.empty)"
    using getQuotaUsage_no_record_today [of _ "''bob''" "''2026-01-05''" "the_config env_unset"]
    by (simp add: the_config_def env_unset_def)
qed

section \<open>Job store: properties\<close>

lemma updateJobStatus_other:
  "jid' \<noteq> jid \<Longrightarrow> updateJobStatus jid u store jid' = store jid'"
  by (simp add: updateJobStatus_def Let_def)

lemma updateJobStatus_absent:
  "store jid = None \<Longrightarrow> updateJobStatus jid u store jid = Some (u\<lparr> jobId := Some jid \<rparr>)"
  by (cases u) (simp add: updateJobStatus_def spread_def spread_key_def empty_object_def
                    Let_def split: option.splits)

lemma updateJobStatus_present:
  "store jid = Some j \<Longrightarrow>
     updateJobStatus jid u store jid = Some ((spread j u)\<lparr> jobId := Some jid \<rparr>)"
  by (simp add: updateJobStatus_def)

lemma cleanupOldJobs_keeps_undated:
  "store jid = Some j \<Longrightarrow> createdAt j = None \<Longrightarrow>
     cleanupOldJobs maxAgeMs now store jid = Some j"
  by (simp add: cleanupOldJobs_def Let_def)

text \<open>
  Claim C4. A caller identity is the uid of a verified token, a non-empty string. For
  every job id and every such caller, the read of a job that exists but belongs to
  someone else returns nothing, exactly as the read of that job id in a store that does
  not hold it; the status route answers both alike, with the same not-found error (or,
  for an id that is not a UUID, the same validation error).
\<close>

theorem getJobStatus_hides_foreign_jobs:
  assumes "caller \<noteq> []"
    and "store jid = Some j"
    and "userId j \<noteq> Some caller"
    and "store' jid = None"
  shows "getJobStatus store jid (Some caller) = None
       \<and> getJobStatus store jid (Some caller) = getJobStatus store' jid (Some caller)
       \<and> get_status isUUID store jid caller = get_status isUUID store' jid caller
       \<and> (isUUID jid \<longrightarrow>
            get_status isUUID store jid caller
              = Inl (NotFoundError (''Job '' @ jid @ '' not found'')))"
  using assms by (simp add: getJobStatus_def get_status_def truthy_string_def)

text \<open>
  Alice's job, asked for by Bob, and the same id asked for in an empty store.
\<close>

theorem getJobStatus_hides_foreign_jobs_witness:
  "getJobStatus
      [''6f1c2a3e-8b7d-4c5a-9e0f-1a2b3c4d5e6f'' \<mapsto>
         pending_update TEXT_TO_VIDEO 1000 \<lparr> uid = ''alice'', email = None \<rparr>
           \<lparr> jp_prompt = ''A'', hasImage = None \<rparr>]
      ''6f1c2a3e-8b7d-4c5a-9e0f-1a2b3c4d5e6f'' (Some ''bob'') = None
   \<and> getJobStatus Map.empty ''6f1c2a3e-8b7d-4c5a-9e0f-1a2b3c4d5e6f'' (Some ''bob'') = None
   \<and> get_status (\<lambda>s. length s = 36)
        [''6f1c2a3e-8b7d-4c5a-9e0f-1a2b3c4d5e6f'' \<mapsto>
           pending_update TEXT_TO_VIDEO 1000 \<lparr> uid = ''alice'', email = None \<rparr>
             \<lparr> jp_prompt = ''A'', hasImage = None \<rparr>]
        ''6f1c2a3e-8b7d-4c5a-9e0f-1a2b3c4d5e6f'' ''bob''
       = get_status (\<lambda>s. length s = 36) Map.empty
           ''6f1c2a3e-8b7d-4c5a-9e0f-1a2b3c4d5e6f'' ''bob''
   \<and> get_status (\<lambda>s. length s = 36) Map.empty
        ''6f1c2a3e-8b7d-4c5a-9e0f-1a2b3c4d5e6f'' ''bob''
       = Inl (NotFoundError ''Job 6f1c2a3e-8b7d-4c5a-9e0f-1a2b3c4d5e6f not found'')"
proof -
  let ?id = "''6f1c2a3e-8b7d-4c5a-9e0f-1a2b3c4d5e6f''"
  let ?j = "pending_update TEXT_TO_VIDEO 1000 \<lparr> uid = ''alice'', email = None \<rparr>
              \<lparr> jp_prompt = ''A'', hasImage = None \<rparr>"
  have c: "userId ?j \<noteq> Some ''bob''" by (simp add: pending_update_def empty_object_def)
  have "getJobStatus [?id \<mapsto> ?j] ?id (Some ''bob'') = None
       \<and> getJobStatus [?id \<mapsto> ?j] ?id (Some ''bob'') = getJobStatus Map.empty ?id (Some ''bob'')
       \<and> get_status (\<lambda>s. length s = 36) [?id \<mapsto> ?j] ?id ''bob''
            = get_status (\<lambda>s. length s = 36) Map.empty ?id ''bob''
       \<and> (length ?id = 36 \<longrightarrow>
            get_status (\<lambda>s. length s = 36) [?id \<mapsto> ?j] ?id ''bob''
              = Inl (NotFoundError (''Job '' @ ?id @ '' not found'')))"
    by (rule getJobStatus_hides_foreign_jobs
              [of "''bob''" "[?id \<mapsto> ?j]" ?id ?j Map.empty "\<lambda>s. length s = 36"])
       (simp_all add: c)
  then have f1: "getJobStatus [?id \<mapsto> ?j] ?id (Some ''bob'') = None"
    and f2: "getJobStatus [?id \<mapsto> ?j] ?id (Some ''bob'') = getJobStatus Map.empty ?id (Some ''bob'')"
    and f3: "get_status (\<lambda>s. length s = 36) [?id \<mapsto> ?j] ?id ''bob''
               = get_status (\<lambda>s. length s = 36) Map.empty ?id ''bob''"
    and f4: "length ?id = 36 \<longrightarrow>
               get_status (\<lambda>s. length s = 36) [?id \<mapsto> ?j] ?id ''bob''
                 = Inl (NotFoundError (''Job '' @ ?id @ '' not found''))"
    by blast+
  have len: "length ?id = 36" by simp
  have g2: "getJobStatus Map.empty ?id (Some ''bob'') = None"
    by (rule trans [OF f2 [symmetric] f1])
  have "get_status (\<lambda>s. length s = 36) [?id \<mapsto> ?j] ?id ''bob''
          = Inl (NotFoundError (''Job '' @ ?id @ '' not found''))"
    using f4 len by (rule mp)
  then have g4: "get_status (\<lambda>s. length s = 36) Map.empty ?id ''bob''
          = Inl (NotFoundError ''Job 6f1c2a3e-8b7d-4c5a-9e0f-1a2b3c4d5e6f not found'')"
    unfolding f3 by simp
  show ?thesis
    by (intro conjI) (rule f1, rule g2, rule f3, rule g4)
qed

text \<open>
  With no identity given (\<^verbatim>\<open>null\<close>, \<^verbatim>\<open>undefined\<close> or the empty string) the read
  checks no ownership: this is the read the service offers to callers inside the
  server, and the status route never makes it.
\<close>

lemma getJobStatus_without_identity:
  "\<not> truthy_string given \<Longrightarrow> getJobStatus store jid given = store jid"
  by (simp add: getJobStatus_def split: option.splits)

text \<open>
  Claim C9. The sweep removes every job whose \<open>createdAt\<close> is more than the retention
  window before the sweep time, whatever its status, and keeps every job whose
  \<open>createdAt\<close> is within the window; with no argument the window is 24 hours.
\<close>

theorem cleanupOldJobs_removes_exactly_the_expired:
  assumes "store jid = Some j"
    and "createdAt j = Some t"
  shows "(now - t > maxAge \<longrightarrow> cleanupOldJobs (Some maxAge) now store jid = None)
       \<and> (now - t \<le> maxAge \<longrightarrow> cleanupOldJobs (Some maxAge) now store jid = Some j)
       \<and> (now - t > 86400000 \<longrightarrow> cleanupOldJobs None now store jid = None)
       \<and> (now - t \<le> 86400000 \<longrightarrow> cleanupOldJobs None now store jid = Some j)"
  using assms by (simp add: cleanupOldJobs_def Let_def)

text \<open>
  A job still PROCESSING, created at time 0, is gone after a sweep at 86400001 ms, and a
  job created at time 1 is kept by the same sweep.
\<close>

theorem cleanupOldJobs_removes_exactly_the_expired_witness:
  "cleanupOldJobs None 86400001
      [''old'' \<mapsto> empty_object\<lparr> status := Some PROCESSING, createdAt := Some 0 \<rparr>,
       ''new'' \<mapsto> empty_object\<lparr> status := Some PROCESSING, createdAt := Some 1 \<rparr>] ''old'' = None
   \<and> cleanupOldJobs None 86400001
      [''old'' \<mapsto> empty_object\<lparr> status := Some PROCESSING, createdAt := Some 0 \<rparr>,
       ''new'' \<mapsto> empty_object\<lparr> status := Some PROCESSING, createdAt := Some 1 \<rparr>] ''new''
     = Some (empty_object\<lparr> status := Some PROCESSING, createdAt := Some 1 \<rparr>)"
proof -
  let ?old = "empty_object\<lparr> status := Some PROCESSING, createdAt := Some 0 \<rparr>"
  let ?new = "empty_object\<lparr> status := Some PROCESSING, createdAt := Some 1 \<rparr>"
  let ?store = "[''old'' \<mapsto> ?old, ''new'' \<mapsto> ?new]"
  have old: "cleanupOldJobs None 86400001 ?store ''old'' = None"
    using cleanupOldJobs_removes_exactly_the_expired
            [of ?store "''old''" ?old 0, where now = 86400001 and maxAge = 0]
    by simp
  have new: "cleanupOldJobs None 86400001 ?store ''new'' = Some ?new"
    using cleanupOldJobs_removes_exactly_the_expired
            [of ?store "''new''" ?new 1, where now = 86400001 and maxAge = 0]
    by simp
  from old new show ?thesis by simp
qed

text \<open>
  Claim C10. \<open>updateJobStatus\<close> is an upsert with a merge per field. On an existing
  record every field the update does not name keeps its value, every field it names
  takes the update's value, and the job id is the key. On a job id the store does not
  hold it creates a record of the update's fields and the job id alone, and touches no
  other entry. So the failure handler's (or the success path's) late update of a swept
  job re-creates a record with no \<open>createdAt\<close> and no owner, and no sweep, at any
  time and with any window, removes that record.
\<close>

theorem updateJobStatus_upsert_merge:
  "(\<forall>j. store jid = Some j \<longrightarrow>
      (\<exists>j'. updateJobStatus jid u store jid = Some j'
         \<and> jobId j' = Some jid
         \<and> status j' = (if status u = None then status j else status u)
         \<and> mode j' = (if mode u = None then mode j else mode u)
         \<and> createdAt j' = (if createdAt u = None then createdAt j else createdAt u)
         \<and> userId j' = (if userId u = None then userId j else userId u)
         \<and> userEmail j' = (if userEmail u = None then userEmail j else userEmail u)
         \<and> params j' = (if params u = None then params j else params u)
         \<and> result j' = (if result u = None then result j else result u)
         \<and> error j' = (if error u = None then error j else error u)
         \<and> completedAt j' = (if completedAt u = None then completedAt j else completedAt u)))
   \<and> (store jid = None \<longrightarrow>
        updateJobStatus jid u store jid = Some (u\<lparr> jobId := Some jid \<rparr>))
   \<and> (\<forall>jid'. jid' \<noteq> jid \<longrightarrow> updateJobStatus jid u store jid' = store jid')
   \<and> (store jid = None \<longrightarrow>
        (\<forall>late \<in> {failed_update msg t, completed_update res t}.
           updateJobStatus jid late store jid = Some (late\<lparr> jobId := Some jid \<rparr>)
         \<and> createdAt (late\<lparr> jobId := Some jid \<rparr>) = None
         \<and> userId (late\<lparr> jobId := Some jid \<rparr>) = None
         \<and> (\<forall>maxAgeMs now.
               cleanupOldJobs maxAgeMs now (updateJobStatus jid late store) jid
                 = Some (late\<lparr> jobId := Some jid \<rparr>))))"
proof (intro conjI allI impI ballI)
  fix j assume present: "store jid = Some j"
  let ?j' = "(spread j u)\<lparr> jobId := Some jid \<rparr>"
  have upd: "updateJobStatus jid u store jid = Some ?j'"
    using present by (rule updateJobStatus_present)
  have key: "\<And>old new :: 'a option. spread_key old new = (if new = None then old else new)"
    by (simp add: spread_key_def split: option.splits)
  have "jobId ?j' = Some jid" by simp
  moreover have "status ?j' = (if status u = None then status j else status u)"
    by (simp add: spread_def key)
  moreover have "mode ?j' = (if mode u = None then mode j else mode u)"
    by (simp add: spread_def key)
  moreover have "createdAt ?j' = (if createdAt u = None then createdAt j else createdAt u)"
    by (simp add: spread_def key)
  moreover have "userId ?j' = (if userId u = None then userId j else userId u)"
    by (simp add: spread_def key)
  moreover have "userEmail ?j' = (if userEmail u = None then userEmail j else userEmail u)"
    by (simp add: spread_def key)
  moreover have "params ?j' = (if params u = None then params j else params u)"
    by (simp add: spread_def key)
  moreover have "result ?j' = (if result u = None then result j else result u)"
    by (simp add: spread_def key)
  moreover have "error ?j' = (if error u = None then error j else error u)"
    by (simp add: spread_def key)
  moreover have "completedAt ?j' = (if completedAt u = None then completedAt j else completedAt u)"
    by (simp add: spread_def key)
  ultimately show "\<exists>j'. updateJobStatus jid u store jid = Some j'
         \<and> jobId j' = Some jid
         \<and> status j' = (if status u = None then status j else status u)
         \<and> mode j' = (if mode u = None then mode j else mode u)
         \<and> createdAt j' = (if createdAt u = None then createdAt j else createdAt u)
         \<and> userId j' = (if userId u = None then userId j else userId u)
         \<and> userEmail j' = (if userEmail u = None then userEmail j else userEmail u)
         \<and> params j' = (if params u = None then params j else params u)
         \<and> result j' = (if result u = None then result j else result u)
         \<and> error j' = (if error u = None then error j else error u)
         \<and> completedAt j' = (if completedAt u = None then completedAt j else completedAt u)"
    using upd by blast
next
  assume "store jid = None"
  then show "updateJobStatus jid u store jid = Some (u\<lparr> jobId := Some jid \<rparr>)"
    by (rule updateJobStatus_absent)
next
  fix jid' assume "jid' \<noteq> jid"
  then show "updateJobStatus jid u store jid' = store jid'"
    by (rule updateJobStatus_other)
next
  fix late maxAgeMs now
  assume absent: "store jid = None"
    and late: "late \<in> {failed_update msg t, completed_update res t}"
  show upd: "updateJobStatus jid late store jid = Some (late\<lparr> jobId := Some jid \<rparr>)"
    using absent by (rule updateJobStatus_absent)
  show undated: "createdAt (late\<lparr> jobId := Some jid \<rparr>) = None"
    using late by (auto simp: failed_update_def completed_update_def empty_object_def)
  show "userId (late\<lparr> jobId := Some jid \<rparr>) = None"
    using late by (auto simp: failed_update_def completed_update_def empty_object_def)
  show "cleanupOldJobs maxAgeMs now (updateJobStatus jid late store) jid
          = Some (late\<lparr> jobId := Some jid \<rparr>)"
    using upd undated by (rule cleanupOldJobs_keeps_undated)
qed

text \<open>
  A job created at time 0 and swept while its provider call is outstanding: the failure
  handler's update at time 90000000 re-creates a record with status FAILED and no
  \<open>createdAt\<close>, and a sweep a year later still holds it. On a record that exists, the
  same update keeps the owner and \<open>createdAt\<close>.
\<close>

theorem updateJobStatus_upsert_merge_witness:
  "updateJobStatus ''j1'' (failed_update ''timeout'' 90000000) Map.empty ''j1''
     = Some ((failed_update ''timeout'' 90000000)\<lparr> jobId := Some ''j1'' \<rparr>)
   \<and> cleanupOldJobs None 31536000000
        (updateJobStatus ''j1'' (failed_update ''timeout'' 90000000) Map.empty) ''j1''
     = Some ((failed_update ''timeout'' 90000000)\<lparr> jobId := Some ''j1'' \<rparr>)
   \<and> (\<exists>j'. updateJobStatus ''j1'' (failed_update ''timeout'' 90000000)
              [''j1'' \<mapsto> pending_update TEXT_TO_VIDEO 0 \<lparr> uid = ''alice'', email = None \<rparr>
                               \<lparr> jp_prompt = ''A'', hasImage = None \<rparr>] ''j1'' = Some j'
          \<and> userId j' = Some ''alice'' \<and> createdAt j' = Some 0
          \<and> status j' = Some FAILED \<and> error j' = Some ''timeout'')"
proof -
  let ?late = "failed_update ''timeout'' 90000000"
  let ?j = "pending_update TEXT_TO_VIDEO 0 \<lparr> uid = ''alice'', email = None \<rparr>
              \<lparr> jp_prompt = ''A'', hasImage = None \<rparr>"
  note absent = updateJobStatus_upsert_merge
    [of Map.empty "''j1''" ?late "''timeout''" 90000000 undefined]
  note present = updateJobStatus_upsert_merge
    [of "[''j1'' \<mapsto> ?j]" "''j1''" ?late "''timeout''" 90000000 undefined]
  have 1: "updateJobStatus ''j1'' ?late Map.empty ''j1'' = Some (?late\<lparr> jobId := Some ''j1'' \<rparr>)"
    using absent by simp
  have 2: "cleanupOldJobs None 31536000000 (updateJobStatus ''j1'' ?late Map.empty) ''j1''
             = Some (?late\<lparr> jobId := Some ''j1'' \<rparr>)"
    using absent by simp
  have j: "userId ?j = Some ''alice''" "createdAt ?j = Some 0"
    by (simp_all add: pending_update_def empty_object_def)
  have late: "userId ?late = None" "createdAt ?late = None" "status ?late = Some FAILED"
      "error ?late = Some ''timeout''"
    by (simp_all add: failed_update_def empty_object_def)
  from present have "\<exists>j'. updateJobStatus ''j1'' ?late [''j1'' \<mapsto> ?j] ''j1'' = Some j'
         \<and> status j' = (if status ?late = None then status ?j else status ?late)
         \<and> createdAt j' = (if createdAt ?late = None then createdAt ?j else createdAt ?late)
         \<and> userId j' = (if userId ?late = None then userId ?j else userId ?late)
         \<and> error j' = (if error ?late = None then error ?j else error ?late)"
    by fastforce
  then have 3: "\<exists>j'. updateJobStatus ''j1'' ?late [''j1'' \<mapsto> ?j] ''j1'' = Some j'
          \<and> userId j' = Some ''alice'' \<and> createdAt j' = Some 0
          \<and> status j' = Some FAILED \<and> error j' = Some ''timeout''"
    unfolding j late by auto
  from 1 2 3 show ?thesis by blast
qed


section \<open>Request building: properties\<close>

lemma foldl_closest:
  fixes req :: int
  defines "f \<equiv> (\<lambda>prev curr. if \<bar>curr - req\<bar> < \<bar>prev - req\<bar> then curr else prev)"
  shows "foldl f x xs \<in> set (x # xs)
       \<and> \<bar>foldl f x xs - req\<bar> \<le> \<bar>x - req\<bar>
       \<and> (\<forall>a \<in> set xs. \<bar>foldl f x xs - req\<bar> \<le> \<bar>a - req\<bar>)"
proof (induction xs arbitrary: x)
  case Nil
  show ?case by simp
next
  case (Cons y ys)
  have step: "\<bar>f x y - req\<bar> \<le> \<bar>x - req\<bar>" "\<bar>f x y - req\<bar> \<le> \<bar>y - req\<bar>" "f x y = x \<or> f x y = y"
    by (simp_all add: f_def)
  from Cons.IH [of "f x y"]
  have ih: "foldl f (f x y) ys \<in> set (f x y # ys)"
      "\<bar>foldl f (f x y) ys - req\<bar> \<le> \<bar>f x y - req\<bar>"
      "\<forall>a \<in> set ys. \<bar>foldl f (f x y) ys - req\<bar> \<le> \<bar>a - req\<bar>"
    by simp_all
  have "foldl f x (y # ys) \<in> set (x # y # ys)"
    using ih(1) step(3) by auto
  moreover have "\<bar>foldl f x (y # ys) - req\<bar> \<le> \<bar>x - req\<bar>"
    using ih(2) step(1) by simp
  moreover have "\<forall>a \<in> set (y # ys). \<bar>foldl f x (y # ys) - req\<bar> \<le> \<bar>a - req\<bar>"
    using ih(2,3) step(2) by auto
  ultimately show ?case by blast
qed

lemma normalizeDuration_closest:
  assumes "allowedDurations cfg \<noteq> []" and "d \<noteq> 0"
  shows "\<exists>r. normalizeDuration cfg (Some d) = Inr r
           \<and> r \<in> set (allowedDurations cfg)
           \<and> (\<forall>a \<in> set (allowedDurations cfg). \<bar>r - d\<bar> \<le> \<bar>a - d\<bar>)"
proof -
  from assms(1) obtain x xs where xs: "allowedDurations cfg = x # xs"
    by (cases "allowedDurations cfg") auto
  let ?f = "\<lambda>prev curr. if \<bar>curr - d\<bar> < \<bar>prev - d\<bar> then curr else prev"
  have nd: "normalizeDuration cfg (Some d) = Inr (foldl ?f x xs)"
    using assms(2) by (simp add: normalizeDuration_def reduce_def truthy_number_def xs)
  from foldl_closest [of d x xs]
  have "foldl ?f x xs \<in> set (x # xs)"
    and "\<bar>foldl ?f x xs - d\<bar> \<le> \<bar>x - d\<bar>"
    and "\<forall>a \<in> set xs. \<bar>foldl ?f x xs - d\<bar> \<le> \<bar>a - d\<bar>"
    by simp_all
  then show ?thesis
    unfolding nd xs by auto
qed

lemma normalizeDuration_the_config:
  "normalizeDuration (the_config env) (Some d) =
     Inr (if d = 0 then 4 else if \<bar>8 - d\<bar> < \<bar>6 - d\<bar> \<and> \<bar>8 - d\<bar> < \<bar>4 - d\<bar> then 8
          else if \<bar>6 - d\<bar> < \<bar>4 - d\<bar> then 6 else 4)"
  by (simp add: normalizeDuration_def reduce_def truthy_number_def the_config_def)

text \<open>
  Claim C6. For every requested duration, normalization returns a member of the allowed
  set whose distance to the request is minimal: for any non-empty allowed list and any
  request other than 0 (which JavaScript reads as no request), and for the configured
  set [4, 6, 8] for every request. There a request of 5 yields 4, a request of 7 yields
  6, and a request of 4 yields 4.
\<close>

theorem normalizeDuration_nearest_allowed:
  "(allowedDurations cfg \<noteq> [] \<and> d \<noteq> 0 \<longrightarrow>
      (\<exists>r. normalizeDuration cfg (Some d) = Inr r
         \<and> r \<in> set (allowedDurations cfg)
         \<and> (\<forall>a \<in> set (allowedDurations cfg). \<bar>r - d\<bar> \<le> \<bar>a - d\<bar>)))
   \<and> (\<exists>r. normalizeDuration (the_config env) (Some d) = Inr r
         \<and> r \<in> {4, 6, 8}
         \<and> (\<forall>a \<in> {4, 6, 8}. \<bar>r - d\<bar> \<le> \<bar>a - d\<bar>))
   \<and> normalizeDuration (the_config env) (Some 5) = Inr 4
   \<and> normalizeDuration (the_config env) (Some 7) = Inr 6
   \<and> normalizeDuration (the_config env) (Some 4) = Inr 4"
proof (intro conjI impI)
  assume "allowedDurations cfg \<noteq> [] \<and> d \<noteq> 0"
  then show "\<exists>r. normalizeDuration cfg (Some d) = Inr r
         \<and> r \<in> set (allowedDurations cfg)
         \<and> (\<forall>a \<in> set (allowedDurations cfg). \<bar>r - d\<bar> \<le> \<bar>a - d\<bar>)"
    using normalizeDuration_closest by blast
next
  show "\<exists>r. normalizeDuration (the_config env) (Some d) = Inr r
         \<and> r \<in> {4, 6, 8}
         \<and> (\<forall>a \<in> {4, 6, 8}. \<bar>r - d\<bar> \<le> \<bar>a - d\<bar>)"
    unfolding normalizeDuration_the_config by auto
qed (simp_all add: normalizeDuration_the_config)

theorem normalizeDuration_nearest_allowed_witness:
  "normalizeDuration (the_config env_unset) (Some 7) = Inr 6
   \<or> normalizeDuration (the_config env_unset) (Some 7) = Inr 8"
proof -
  have allowed: "allowedDurations (the_config env_unset) = [4, 6, 8]"
    by (simp add: the_config_def)
  have "allowedDurations (the_config env_unset) \<noteq> [] \<and> (7::int) \<noteq> 0"
    by (simp add: allowed)
  with normalizeDuration_nearest_allowed [of "the_config env_unset" 7 env_unset]
  obtain r where r: "normalizeDuration (the_config env_unset) (Some 7) = Inr r"
      "r \<in> set (allowedDurations (the_config env_unset))"
      "\<forall>a \<in> set (allowedDurations (the_config env_unset)). \<bar>r - 7\<bar> \<le> \<bar>a - 7\<bar>"
    by blast
  from r(3) have "\<bar>r - 7\<bar> \<le> 1" by (simp add: allowed)
  with r(2) have "r = 6 \<or> r = 8" by (auto simp: allowed)
  with r(1) show ?thesis by auto
qed

lemma buildRequestParameters_Inr:
  assumes "buildRequestParameters cfg ps = Inr rp"
  shows "rp_fps rp = (if forward_fps cfg \<and> truthy_number (fps ps) then fps ps else None)"
    and "rp_negativePrompt rp =
           (if forward_negativePrompt cfg \<and> truthy_string (negativePrompt ps)
            then negativePrompt ps else None)"
    and "rp_seed rp = (if forward_seed cfg \<and> seed ps \<noteq> None then seed ps else None)"
    and "rp_generateAudio rp =
           (if forward_generateAudio cfg \<and> generateAudio ps \<noteq> None
            then generateAudio ps else None)"
    and "rp_resolution rp =
           (if forward_resolution cfg \<and> quality ps = Some ''high'' then Some ''1080p'' else None)"
  using assms by (auto simp: buildRequestParameters_def split: sum.splits)

lemma truthy_number_iff: "truthy_number v \<longleftrightarrow> v \<noteq> None \<and> v \<noteq> Some 0"
  by (cases v) (simp_all add: truthy_number_def)

lemma truthy_string_iff: "truthy_string v \<longleftrightarrow> v \<noteq> None \<and> v \<noteq> Some []"
  by (cases v) (simp_all add: truthy_string_def)

text \<open>
  Claim C7, as amended. In the parameters built for the provider: \<open>fps\<close> is present
  exactly when its toggle is on and the caller supplied a non-zero value;
  \<open>negativePrompt\<close> exactly when its toggle is on and the caller supplied a non-empty
  string; \<open>seed\<close> and \<open>generateAudio\<close> exactly when the toggle is on and the caller
  supplied the field; \<open>resolution\<close> exactly when its toggle is on and the request's
  \<open>quality\<close> is \<open>high\<close>. A forwarded parameter carries the caller's value
  (\<open>resolution\<close>: the constant \<open>1080p\<close>). With the toggle off or the field absent the
  parameter is absent.
\<close>

theorem buildRequestParameters_forwarding:
  assumes "buildRequestParameters cfg ps = Inr rp"
  shows "(rp_fps rp \<noteq> None \<longleftrightarrow> forward_fps cfg \<and> fps ps \<noteq> None \<and> fps ps \<noteq> Some 0)
       \<and> (rp_negativePrompt rp \<noteq> None \<longleftrightarrow>
            forward_negativePrompt cfg \<and> negativePrompt ps \<noteq> None \<and> negativePrompt ps \<noteq> Some [])
       \<and> (rp_seed rp \<noteq> None \<longleftrightarrow> forward_seed cfg \<and> seed ps \<noteq> None)
       \<and> (rp_generateAudio rp \<noteq> None \<longleftrightarrow> forward_generateAudio cfg \<and> generateAudio ps \<noteq> None)
       \<and> (rp_resolution rp \<noteq> None \<longleftrightarrow> forward_resolution cfg \<and> quality ps = Some ''high'')
       \<and> (rp_fps rp \<noteq> None \<longrightarrow> rp_fps rp = fps ps)
       \<and> (rp_negativePrompt rp \<noteq> None \<longrightarrow> rp_negativePrompt rp = negativePrompt ps)
       \<and> (rp_seed rp \<noteq> None \<longrightarrow> rp_seed rp = seed ps)
       \<and> (rp_generateAudio rp \<noteq> None \<longrightarrow> rp_generateAudio rp = generateAudio ps)
       \<and> (rp_resolution rp \<noteq> None \<longrightarrow> rp_resolution rp = Some ''1080p'')"
proof -
  note rp = buildRequestParameters_Inr [OF assms]
  have "rp_fps rp \<noteq> None \<longleftrightarrow> forward_fps cfg \<and> fps ps \<noteq> None \<and> fps ps \<noteq> Some 0"
    by (simp add: rp(1) truthy_number_iff)
  moreover have "rp_negativePrompt rp \<noteq> None \<longleftrightarrow>
      forward_negativePrompt cfg \<and> negativePrompt ps \<noteq> None \<and> negativePrompt ps \<noteq> Some []"
    by (simp add: rp(2) truthy_string_iff)
  moreover have "rp_seed rp \<noteq> None \<longleftrightarrow> forward_seed cfg \<and> seed ps \<noteq> None"
    by (simp add: rp(3))
  moreover have "rp_generateAudio rp \<noteq> None \<longleftrightarrow>
      forward_generateAudio cfg \<and> generateAudio ps \<noteq> None"
    by (simp add: rp(4))
  moreover have "rp_resolution rp \<noteq> None \<longleftrightarrow> forward_resolution cfg \<and> quality ps = Some ''high''"
    by (simp add: rp(5))
  moreover have "rp_fps rp \<noteq> None \<longrightarrow> rp_fps rp = fps ps"
    by (simp add: rp(1))
  moreover have "rp_negativePrompt rp \<noteq> None \<longrightarrow> rp_negativePrompt rp = negativePrompt ps"
    by (simp add: rp(2))
  moreover have "rp_seed rp \<noteq> None \<longrightarrow> rp_seed rp = seed ps"
    by (simp add: rp(3))
  moreover have "rp_generateAudio rp \<noteq> None \<longrightarrow> rp_generateAudio rp = generateAudio ps"
    by (simp add: rp(4))
  moreover have "rp_resolution rp \<noteq> None \<longrightarrow> rp_resolution rp = Some ''1080p''"
    by (simp add: rp(5))
  ultimately show ?thesis by blast
qed

text \<open>
  With every toggle switched on: a request with fps 24, seed 0, the audio flag false,
  a negative prompt and quality \<open>high\<close> has all five parameters forwarded.
\<close>

theorem buildRequestParameters_forwarding_witness:
  "buildRequestParameters
     ((the_config env_unset)\<lparr> forward_fps := True, forward_generateAudio := True,
                               forward_resolution := True \<rparr>)
     ((prompt_only ''A'')\<lparr> fps := Some 24, seed := Some 0, generateAudio := Some False,
                            negativePrompt := Some ''blurry'', quality := Some ''high'' \<rparr>)
   = Inr \<lparr> rp_aspectRatio = ''16:9'', rp_durationSeconds = 4, rp_fps = Some 24,
           rp_negativePrompt = Some ''blurry'', rp_seed = Some 0,
           rp_generateAudio = Some False, rp_resolution = Some ''1080p'' \<rparr>"
proof -
  let ?cfg = "(the_config env_unset)\<lparr> forward_fps := True, forward_generateAudio := True,
                               forward_resolution := True \<rparr>"
  let ?ps = "(prompt_only ''A'')\<lparr> fps := Some 24, seed := Some 0, generateAudio := Some False,
                            negativePrompt := Some ''blurry'', quality := Some ''high'' \<rparr>"
  have nd: "normalizeDuration ?cfg None = Inr 4"
    by (simp add: normalizeDuration_def reduce_def truthy_number_def the_config_def)
  obtain rp where rp: "buildRequestParameters ?cfg ?ps = Inr rp"
    by (simp add: buildRequestParameters_def prompt_only_def nd)
  have da: "default_aspectRatio ?cfg = ''16:9''"
    by (simp add: the_config_def)
  have base: "rp_aspectRatio rp = ''16:9''" "rp_durationSeconds rp = 4"
    using rp by (auto simp: buildRequestParameters_def prompt_only_def nd truthy_string_def da)
  have toggles: "forward_fps ?cfg" "forward_seed ?cfg" "forward_negativePrompt ?cfg"
      "forward_generateAudio ?cfg" "forward_resolution ?cfg"
    by (simp_all add: the_config_def env_unset_def)
  have fields: "fps ?ps = Some 24" "seed ?ps = Some 0" "generateAudio ?ps = Some False"
      "negativePrompt ?ps = Some ''blurry''" "quality ?ps = Some ''high''"
    by (simp_all add: prompt_only_def)
  have "rp_fps rp = Some 24" "rp_negativePrompt rp = Some ''blurry''" "rp_seed rp = Some 0"
      "rp_generateAudio rp = Some False" "rp_resolution rp = Some ''1080p''"
    using buildRequestParameters_forwarding [OF rp] toggles
    unfolding fields by simp_all
  with base have "rp = \<lparr> rp_aspectRatio = ''16:9'', rp_durationSeconds = 4, rp_fps = Some 24,
           rp_negativePrompt = Some ''blurry'', rp_seed = Some 0,
           rp_generateAudio = Some False, rp_resolution = Some ''1080p'' \<rparr>"
    by (cases rp) simp
  with rp show ?thesis by simp
qed

text \<open>
  Claim C7 as stated fails: with the negative-prompt and resolution toggles on, a caller
  who supplies an empty negative prompt and the quality \<open>standard\<close> gets neither
  parameter forwarded.
\<close>

theorem buildRequestParameters_supplied_not_forwarded_counterexample:
  "forward_negativePrompt (the_config (env_unset\<lparr> VEO_FORWARD_RESOLUTION := Some ''true'' \<rparr>))
   \<and> forward_resolution (the_config (env_unset\<lparr> VEO_FORWARD_RESOLUTION := Some ''true'' \<rparr>))
   \<and> negativePrompt ((prompt_only ''A'')\<lparr> negativePrompt := Some [],
                                           quality := Some ''standard'' \<rparr>) = Some []
   \<and> quality ((prompt_only ''A'')\<lparr> negativePrompt := Some [],
                                    quality := Some ''standard'' \<rparr>) = Some ''standard''
   \<and> buildRequestParameters
        (the_config (env_unset\<lparr> VEO_FORWARD_RESOLUTION := Some ''true'' \<rparr>))
        ((prompt_only ''A'')\<lparr> negativePrompt := Some [], quality := Some ''standard'' \<rparr>)
      = Inr \<lparr> rp_aspectRatio = ''16:9'', rp_durationSeconds = 4, rp_fps = None,
              rp_negativePrompt = None, rp_seed = None, rp_generateAudio = None,
              rp_resolution = None \<rparr>"
  by (simp add: buildRequestParameters_def normalizeDuration_def reduce_def truthy_number_def
        truthy_string_def the_config_def env_unset_def prompt_only_def)


section \<open>Generation orchestration: properties\<close>

lemma jobStore_call_updateJobStatus:
  "jobStore (call_updateJobStatus jid u w) = updateJobStatus jid u (jobStore w)"
  "tasks (call_updateJobStatus jid u w) = tasks w"
  "quotaStore (call_updateJobStatus jid u w) = quotaStore w"
  "trace (call_updateJobStatus jid u w) = trace w @ [UpdateJobStatus jid (status u)]"
  by (simp_all add: call_updateJobStatus_def)

lemma call_consumeQuota_frame:
  "jobStore (snd (call_consumeQuota cfg d d' who w)) = jobStore w"
  "tasks (snd (call_consumeQuota cfg d d' who w)) = tasks w"
  "trace (snd (call_consumeQuota cfg d d' who w)) = trace w @ [ConsumeQuota who]"
  "quotaStore (snd (call_consumeQuota cfg d d' who w)) = snd (consumeQuota cfg d d' who (quotaStore w))"
  "fst (call_consumeQuota cfg d d' who w) = fst (consumeQuota cfg d d' who (quotaStore w))"
  by (simp_all add: call_consumeQuota_def split: prod.splits)

lemma create_then_start:
  assumes "store jid = None"
  shows "updateJobStatus jid processing_update (updateJobStatus jid (pending_update m now u p) store) jid
           = Some ((pending_update m now u p)\<lparr> status := Some PROCESSING, jobId := Some jid \<rparr>)"
proof -
  have "updateJobStatus jid (pending_update m now u p) store jid
          = Some ((pending_update m now u p)\<lparr> jobId := Some jid \<rparr>)"
    using assms by (rule updateJobStatus_absent)
  then show ?thesis
    by (simp add: updateJobStatus_present spread_def spread_key_def processing_update_def
          pending_update_def empty_object_def)
qed

lemma create_start_fail:
  assumes "store jid = None"
  shows "updateJobStatus jid (failed_update msg later)
           (updateJobStatus jid processing_update
              (updateJobStatus jid (pending_update m now u p) store)) jid
           = Some ((pending_update m now u p)\<lparr> status := Some FAILED, error := Some msg,
                     completedAt := Some later, jobId := Some jid \<rparr>)"
proof -
  have "updateJobStatus jid processing_update
          (updateJobStatus jid (pending_update m now u p) store) jid
          = Some ((pending_update m now u p)\<lparr> status := Some PROCESSING, jobId := Some jid \<rparr>)"
    using assms by (rule create_then_start)
  then show ?thesis
    by (simp add: updateJobStatus_present spread_def spread_key_def failed_update_def
          pending_update_def empty_object_def)
qed

lemma detached_effect:
  "jobStore (catch_attached jid later (executeGeneration_start cfg jid ps img w)) =
     (case buildRequestParameters cfg ps of
        Inr rp \<Rightarrow> updateJobStatus jid processing_update (jobStore w)
      | Inl e \<Rightarrow> updateJobStatus jid
                  (failed_update ''Reduce of empty array with no initial value'' later)
                  (updateJobStatus jid processing_update (jobStore w)))"
  "tasks (catch_attached jid later (executeGeneration_start cfg jid ps img w)) =
     (tasks w)(jid \<mapsto> (case buildRequestParameters cfg ps of
                          Inr rp \<Rightarrow> Awaiting | Inl e \<Rightarrow> Settled))"
  "quotaStore (catch_attached jid later (executeGeneration_start cfg jid ps img w)) = quotaStore w"
  "trace (catch_attached jid later (executeGeneration_start cfg jid ps img w)) =
     trace w @ UpdateJobStatus jid (Some PROCESSING)
       # (case buildRequestParameters cfg ps of
            Inr rp \<Rightarrow> [Predict \<lparr> pc_prompt = buildEnhancedPrompt ps, pc_image = img,
                                   pc_parameters = rp \<rparr>]
          | Inl e \<Rightarrow> [UpdateJobStatus jid (Some FAILED)])"
  by (cases "buildRequestParameters cfg ps";
      simp add: catch_attached_def executeGeneration_start_def generation_failed_def Let_def
        call_updateJobStatus_def processing_update_def failed_update_def empty_object_def)+

lemma generate_effect:
  "admitted_step cfg rq m p w
     (catch_attached (r_uuid rq) (r_later rq)
        (executeGeneration_start cfg (r_uuid rq) (r_body rq) img
           (call_updateJobStatus (r_uuid rq) (pending_update m (r_now rq) (r_user rq) p) w0)))"
  if "jobStore w0 = jobStore w" and "tasks w0 = tasks w"
  using that
  by (cases "buildRequestParameters cfg (r_body rq)")
     (simp_all add: admitted_step_def Let_def detached_effect jobStore_call_updateJobStatus)

lemma post_text_effect:
  "(jobStore (snd (post_text cfg rq w)) = jobStore w \<and> tasks (snd (post_text cfg rq w)) = tasks w)
   \<or> admitted_step cfg rq TEXT_TO_VIDEO \<lparr> jp_prompt = prompt (r_body rq), hasImage = None \<rparr>
        w (snd (post_text cfg rq w))"
proof -
  let ?c = "call_consumeQuota cfg (r_today rq) (r_today' rq) (uid (r_user rq)) w"
  let ?g = "catch_attached (r_uuid rq) (r_later rq)
              (executeGeneration_start cfg (r_uuid rq) (r_body rq) None
                 (call_updateJobStatus (r_uuid rq)
                    (pending_update TEXT_TO_VIDEO (r_now rq) (r_user rq)
                       \<lparr> jp_prompt = prompt (r_body rq), hasImage = None \<rparr>) (snd ?c)))"
  have frame: "jobStore (snd ?c) = jobStore w" "tasks (snd ?c) = tasks w"
    by (simp_all add: call_consumeQuota_frame)
  have "snd (post_text cfg rq w) = w \<or> snd (post_text cfg rq w) = snd ?c
        \<or> snd (post_text cfg rq w) = ?g"
    by (simp add: post_text_def generateFromText_def Let_def split: prod.splits sum.splits)
  then show ?thesis
    using generate_effect [OF frame, of cfg rq TEXT_TO_VIDEO
            "\<lparr> jp_prompt = prompt (r_body rq), hasImage = None \<rparr>" None]
    by (elim disjE) (simp_all add: frame)
qed

lemma post_image_effect:
  "(jobStore (snd (post_image cfg rq w)) = jobStore w \<and> tasks (snd (post_image cfg rq w)) = tasks w)
   \<or> admitted_step cfg rq IMAGE_TO_VIDEO \<lparr> jp_prompt = prompt (r_body rq), hasImage = Some True \<rparr>
        w (snd (post_image cfg rq w))"
proof -
  let ?c = "call_consumeQuota cfg (r_today rq) (r_today' rq) (uid (r_user rq)) w"
  let ?img = "Some (imageBase64 (r_body rq),
                    if truthy_string (imageMimeType (r_body rq))
                    then the (imageMimeType (r_body rq)) else ''image/png'')"
  let ?g = "catch_attached (r_uuid rq) (r_later rq)
              (executeGeneration_start cfg (r_uuid rq) (r_body rq) ?img
                 (call_updateJobStatus (r_uuid rq)
                    (pending_update IMAGE_TO_VIDEO (r_now rq) (r_user rq)
                       \<lparr> jp_prompt = prompt (r_body rq), hasImage = Some True \<rparr>) (snd ?c)))"
  have frame: "jobStore (snd ?c) = jobStore w" "tasks (snd ?c) = tasks w"
    by (simp_all add: call_consumeQuota_frame)
  have "snd (post_image cfg rq w) = w \<or> snd (post_image cfg rq w) = snd ?c
        \<or> snd (post_image cfg rq w) = ?g"
    by (simp add: post_image_def generateFromImage_def Let_def split: prod.splits sum.splits)
  then show ?thesis
    using generate_effect [OF frame, of cfg rq IMAGE_TO_VIDEO
            "\<lparr> jp_prompt = prompt (r_body rq), hasImage = Some True \<rparr>" ?img]
    by (elim disjE) (simp_all add: frame)
qed

lemma post_video_effect:
  "post_video cfg rq w = (fst (post_video cfg rq w), w)"
  by (simp add: post_video_def generateFromVideo_def)

lemma world_ok_cong:
  "jobStore w' = jobStore w \<Longrightarrow> tasks w' = tasks w \<Longrightarrow> world_ok w \<Longrightarrow> world_ok w'"
  by (simp add: world_ok_def)

lemma world_ok_absent:
  "world_ok w \<Longrightarrow> tasks w jid = None \<Longrightarrow> jobStore w jid = None"
proof (cases "jobStore w jid")
  case None
  then show ?thesis .
next
  case (Some j)
  assume ok: "world_ok w" and none: "tasks w jid = None"
  from ok Some have "job_matches_task (tasks w jid) j"
    unfolding world_ok_def by blast
  with none show ?thesis by (simp add: job_matches_task_def)
qed

lemma world_ok_admitted:
  assumes ok: "world_ok w" and fresh: "r_uuid rq \<notin> dom (tasks w)"
    and step: "admitted_step cfg rq m p w w'"
  shows "world_ok w'"
proof -
  let ?jid = "r_uuid rq"
  let ?pending = "pending_update m (r_now rq) (r_user rq) p"
  let ?msg = "''Reduce of empty array with no initial value''"
  from fresh have none: "tasks w ?jid = None" by (simp add: domIff)
  with ok have absent: "jobStore w ?jid = None" by (rule world_ok_absent)
  have "\<exists>j t. jobStore w' ?jid = Some j \<and> tasks w' = (tasks w)(?jid \<mapsto> t)
          \<and> job_matches_task (Some t) j
          \<and> (\<forall>k. k \<noteq> ?jid \<longrightarrow> jobStore w' k = jobStore w k)"
  proof (cases "buildRequestParameters cfg (r_body rq)")
    case (Inr rp)
    with step have js: "jobStore w' = updateJobStatus ?jid processing_update
          (updateJobStatus ?jid ?pending (jobStore w))"
      and ts: "tasks w' = (tasks w)(?jid \<mapsto> Awaiting)"
      by (simp_all add: admitted_step_def Let_def)
    have "jobStore w' ?jid = Some (?pending\<lparr> status := Some PROCESSING, jobId := Some ?jid \<rparr>)"
      unfolding js using absent by (rule create_then_start)
    moreover have "job_matches_task (Some Awaiting)
                     (?pending\<lparr> status := Some PROCESSING, jobId := Some ?jid \<rparr>)"
      by (simp add: job_matches_task_def result_error_ok_def pending_update_def empty_object_def)
    moreover have "\<forall>k. k \<noteq> ?jid \<longrightarrow> jobStore w' k = jobStore w k"
      unfolding js by (simp add: updateJobStatus_other)
    ultimately show ?thesis using ts by blast
  next
    case (Inl e)
    with step have js: "jobStore w' = updateJobStatus ?jid (failed_update ?msg (r_later rq))
          (updateJobStatus ?jid processing_update
             (updateJobStatus ?jid ?pending (jobStore w)))"
      and ts: "tasks w' = (tasks w)(?jid \<mapsto> Settled)"
      by (simp_all add: admitted_step_def Let_def)
    have "jobStore w' ?jid = Some (?pending\<lparr> status := Some FAILED, error := Some ?msg,
                   completedAt := Some (r_later rq), jobId := Some ?jid \<rparr>)"
      unfolding js using absent by (rule create_start_fail)
    moreover have "job_matches_task (Some Settled)
                     (?pending\<lparr> status := Some FAILED, error := Some ?msg,
                         completedAt := Some (r_later rq), jobId := Some ?jid \<rparr>)"
      by (simp add: job_matches_task_def result_error_ok_def pending_update_def empty_object_def
            in_flight_def)
    moreover have "\<forall>k. k \<noteq> ?jid \<longrightarrow> jobStore w' k = jobStore w k"
      unfolding js by (simp add: updateJobStatus_other)
    ultimately show ?thesis using ts by blast
  qed
  then obtain j t where new: "jobStore w' ?jid = Some j" and ts: "tasks w' = (tasks w)(?jid \<mapsto> t)"
    and new_ok: "job_matches_task (Some t) j"
    and other: "\<And>k. k \<noteq> ?jid \<Longrightarrow> jobStore w' k = jobStore w k"
    by blast
  show ?thesis
    unfolding world_ok_def
  proof (intro allI impI)
    fix k j' assume kj: "jobStore w' k = Some j'"
    show "job_matches_task (tasks w' k) j'"
    proof (cases "k = ?jid")
      case True
      with kj new new_ok show ?thesis by (simp add: ts)
    next
      case False
      with kj other have "jobStore w k = Some j'" by simp
      with ok have "job_matches_task (tasks w k) j'" by (simp add: world_ok_def)
      with False show ?thesis by (simp add: ts)
    qed
  qed
qed

lemma world_ok_settle:
  assumes ok: "world_ok w" and fl: "in_flight (tasks w jid)"
    and late: "status late \<noteq> None" "result_error_ok (late\<lparr> jobId := Some jid \<rparr>)"
      "status late \<noteq> Some PENDING" "status late \<noteq> Some PROCESSING"
      "status late = Some COMPLETED \<longrightarrow> result late \<noteq> None \<and> error late = None"
      "status late = Some FAILED \<longrightarrow> error late \<noteq> None \<and> result late = None"
    and js: "jobStore w' = updateJobStatus jid late (jobStore w)"
    and ts: "tasks w' = (tasks w)(jid \<mapsto> Settled)"
  shows "world_ok w'"
  unfolding world_ok_def
proof (intro allI impI)
  fix k j assume kj: "jobStore w' k = Some j"
  show "job_matches_task (tasks w' k) j"
  proof (cases "k = jid")
    case False
    with kj js have "jobStore w k = Some j" by (simp add: updateJobStatus_other)
    with ok have "job_matches_task (tasks w k) j" by (simp add: world_ok_def)
    with False show ?thesis by (simp add: ts)
  next
    case True
    have settled: "tasks w' k = Some Settled" "\<not> in_flight (tasks w' k)"
      using True by (simp_all add: ts in_flight_def)
    show ?thesis
    proof (cases "jobStore w jid")
      case None
      then have "jobStore w' jid = Some (late\<lparr> jobId := Some jid \<rparr>)"
        unfolding js by (rule updateJobStatus_absent)
      with kj True have "j = late\<lparr> jobId := Some jid \<rparr>" by simp
      with late(1,2) settled show ?thesis
        by (simp add: job_matches_task_def)
    next
      case (Some old)
      with ok have "job_matches_task (tasks w jid) old" by (simp add: world_ok_def)
      with fl have old: "status old = Some PROCESSING" "result_error_ok old"
        by (simp_all add: job_matches_task_def)
      then have clean: "result old = None" "error old = None"
        by (simp_all add: result_error_ok_def)
      from Some have "jobStore w' jid = Some ((spread old late)\<lparr> jobId := Some jid \<rparr>)"
        unfolding js by (rule updateJobStatus_present)
      with kj True have j: "j = (spread old late)\<lparr> jobId := Some jid \<rparr>" by simp
      have key: "\<And>a b :: 'a option. spread_key a b = (if b = None then a else b)"
        by (simp add: spread_key_def split: option.splits)
      have st: "status j = status late"
        using late(1) by (auto simp: j spread_def key)
      have re: "result j = result late" "error j = error late"
        by (simp_all add: j spread_def key clean)
      have "result_error_ok j"
        using late(3-6) unfolding result_error_ok_def st re by blast
      with st late(1) settled show ?thesis
        by (simp add: job_matches_task_def)
    qed
  qed
qed

lemma world_ok_cleanup:
  assumes "world_ok w"
  shows "world_ok (periodic_cleanup now today w)"
  unfolding world_ok_def
proof (intro allI impI)
  fix k j assume "jobStore (periodic_cleanup now today w) k = Some j"
  then have "jobStore w k = Some j"
    by (auto simp: periodic_cleanup_def cleanupOldJobs_def Let_def split: option.splits if_splits)
  with assms have "job_matches_task (tasks w k) j" by (simp add: world_ok_def)
  then show "job_matches_task (tasks (periodic_cleanup now today w) k) j"
    by (simp add: periodic_cleanup_def)
qed

lemma world_ok_rejected:
  assumes ok: "world_ok w" and aw: "tasks w jid = Some Awaiting"
  shows "world_ok (executeGeneration_rejected jid msg w)"
  unfolding world_ok_def
proof (intro allI impI)
  fix k j assume "jobStore (executeGeneration_rejected jid msg w) k = Some j"
  then have kj: "jobStore w k = Some j" by (simp add: executeGeneration_rejected_def)
  with ok have m: "job_matches_task (tasks w k) j" by (simp add: world_ok_def)
  show "job_matches_task (tasks (executeGeneration_rejected jid msg w) k) j"
  proof (cases "k = jid")
    case True
    with m aw have "status j = Some PROCESSING" "status j \<noteq> None" "result_error_ok j"
      by (simp_all add: job_matches_task_def in_flight_def)
    with True show ?thesis
      by (simp add: job_matches_task_def executeGeneration_rejected_def)
  next
    case False
    with m show ?thesis by (simp add: executeGeneration_rejected_def)
  qed
qed

lemma reachable_world_ok:
  assumes "reachable cfg w"
  shows "world_ok w"
  using assms
proof (induction rule: reachable.induct)
  case at_start
  show ?case by (simp add: world_ok_def init_world_def)
next
  case (on_post_text w rq)
  from post_text_effect [of cfg rq w] show ?case
  proof
    assume "jobStore (snd (post_text cfg rq w)) = jobStore w
              \<and> tasks (snd (post_text cfg rq w)) = tasks w"
    with on_post_text.IH show ?thesis by (blast intro: world_ok_cong)
  next
    assume "admitted_step cfg rq TEXT_TO_VIDEO \<lparr> jp_prompt = prompt (r_body rq), hasImage = None \<rparr>
              w (snd (post_text cfg rq w))"
    with on_post_text.IH on_post_text.hyps(2) show ?thesis by (rule world_ok_admitted)
  qed
next
  case (on_post_image w rq)
  from post_image_effect [of cfg rq w] show ?case
  proof
    assume "jobStore (snd (post_image cfg rq w)) = jobStore w
              \<and> tasks (snd (post_image cfg rq w)) = tasks w"
    with on_post_image.IH show ?thesis by (blast intro: world_ok_cong)
  next
    assume "admitted_step cfg rq IMAGE_TO_VIDEO \<lparr> jp_prompt = prompt (r_body rq), hasImage = Some True \<rparr>
              w (snd (post_image cfg rq w))"
    with on_post_image.IH on_post_image.hyps(2) show ?thesis by (rule world_ok_admitted)
  qed
next
  case (on_post_video w rq)
  have "snd (post_video cfg rq w) = w"
    by (metis post_video_effect snd_conv)
  with on_post_video.IH show ?case by simp
next
  case (on_resolved w jid res now)
  show ?case
  proof (rule world_ok_settle [where late = "completed_update res now" and jid = jid and w = w])
    show "world_ok w" by (rule on_resolved.IH)
    show "in_flight (tasks w jid)" using on_resolved.hyps(2) by (simp add: in_flight_def)
  qed (simp_all add: completed_update_def empty_object_def result_error_ok_def
         executeGeneration_resolved_def Let_def jobStore_call_updateJobStatus)
next
  case (on_rejected w jid msg)
  then show ?case by (simp add: world_ok_rejected)
next
  case (on_failed w jid msg now)
  show ?case
  proof (rule world_ok_settle [where late = "failed_update msg now" and jid = jid and w = w])
    show "world_ok w" by (rule on_failed.IH)
    show "in_flight (tasks w jid)" using on_failed.hyps(2) by (simp add: in_flight_def)
  qed (simp_all add: failed_update_def empty_object_def result_error_ok_def
         generation_failed_def Let_def jobStore_call_updateJobStatus)
next
  case (on_cleanup w now today)
  then show ?case by (simp add: world_ok_cleanup)
qed

text \<open>
  Claim C5. Every job record in a reachable job store has a status; a COMPLETED record
  has a result and no error, a FAILED record has an error and no result, and a PENDING
  or PROCESSING record has neither.
\<close>

theorem result_xor_error_invariant:
  assumes "reachable cfg w" and "jobStore w jid = Some j"
  shows "(status j = Some COMPLETED \<longrightarrow> result j \<noteq> None \<and> error j = None)
       \<and> (status j = Some FAILED \<longrightarrow> error j \<noteq> None \<and> result j = None)
       \<and> (status j = Some PENDING \<or> status j = Some PROCESSING \<longrightarrow>
            result j = None \<and> error j = None)
       \<and> status j \<noteq> None"
proof -
  from assms(1) have "world_ok w" by (rule reachable_world_ok)
  with assms(2) have "job_matches_task (tasks w jid) j" by (simp add: world_ok_def)
  then show ?thesis by (simp add: job_matches_task_def result_error_ok_def)
qed

lemma consumeQuota_result:
  "consumeQuota cfg t t' who q =
     (if used_today cfg t' who q < dailyVideoGenerations cfg
      then (Inr \<lparr> used = used_today cfg t' who q + 1, limit = dailyVideoGenerations cfg,
                  remaining = dailyVideoGenerations cfg - used_today cfg t' who q - 1 \<rparr>,
            q(who \<mapsto> \<lparr> date = t, count = used_today cfg t' who q + 1 \<rparr>))
      else (Inl (QuotaExceededError who (dailyVideoGenerations cfg)), q))"
  by (auto simp: consumeQuota_def getQuotaUsage_def used_today_def Let_def
           split: option.splits)

lemma call_consumeQuota_result:
  "call_consumeQuota cfg t t' who w =
     (if used_today cfg t' who (quotaStore w) < dailyVideoGenerations cfg
      then (Inr \<lparr> used = used_today cfg t' who (quotaStore w) + 1,
                  limit = dailyVideoGenerations cfg,
                  remaining = dailyVideoGenerations cfg - used_today cfg t' who (quotaStore w) - 1 \<rparr>,
            w\<lparr> quotaStore := (quotaStore w)(who \<mapsto>
                   \<lparr> date = t, count = used_today cfg t' who (quotaStore w) + 1 \<rparr>),
               trace := trace w @ [ConsumeQuota who] \<rparr>)
      else (Inl (QuotaExceededError who (dailyVideoGenerations cfg)),
            w\<lparr> trace := trace w @ [ConsumeQuota who] \<rparr>))"
  by (simp add: call_consumeQuota_def consumeQuota_result)

lemma status_pending_update: "status (pending_update m now u p) = Some PENDING"
  by (simp add: pending_update_def empty_object_def)

lemma buildRequestParameters_the_config:
  "\<exists>rp. buildRequestParameters (the_config env) ps = Inr rp"
proof -
  have "\<exists>r. normalizeDuration (the_config env) (durationSeconds ps) = Inr r"
    by (simp add: normalizeDuration_def reduce_def the_config_def Let_def)
  then show ?thesis
    by (auto simp: buildRequestParameters_def)
qed

lemma text_always_supported: "isModeSupported (the_config env) TEXT_TO_VIDEO"
  by (simp add: isModeSupported_def the_config_def)


text \<open>
  What the creating call leaves behind when the mode is supported, the job id is fresh
  and the parameters can be built.
\<close>

lemma created_and_started:
  assumes fresh: "jobStore w jid = None"
    and built: "buildRequestParameters cfg ps = Inr rp"
    and w': "w' = catch_attached jid later
                    (executeGeneration_start cfg jid ps img
                       (call_updateJobStatus jid (pending_update m now u p) w))"
  shows "\<exists>j. updateJobStatus jid (pending_update m now u p) (jobStore w) jid
                = Some (j\<lparr> status := Some PENDING \<rparr>)
            \<and> getJobStatus (jobStore w') jid (Some (uid u)) = Some j
            \<and> (status j = Some PENDING \<or> status j = Some PROCESSING)
            \<and> result j = None \<and> error j = None
            \<and> userId j = Some (uid u) \<and> mode j = Some m \<and> createdAt j = Some now"
    and "\<exists>between. trace w' = trace w @ UpdateJobStatus jid (Some PENDING) # between
                          @ [Predict \<lparr> pc_prompt = buildEnhancedPrompt ps, pc_image = img,
                                       pc_parameters = rp \<rparr>]
                   \<and> (\<forall>e \<in> set between. \<not> is_predict e)"
    and "tasks w' jid = Some Awaiting"
proof -
  let ?j = "(pending_update m now u p)\<lparr> status := Some PROCESSING, jobId := Some jid \<rparr>"
  have created: "updateJobStatus jid (pending_update m now u p) (jobStore w) jid
                   = Some ((pending_update m now u p)\<lparr> jobId := Some jid \<rparr>)"
    using fresh by (rule updateJobStatus_absent)
  have same: "?j\<lparr> status := Some PENDING \<rparr> = (pending_update m now u p)\<lparr> jobId := Some jid \<rparr>"
    by (simp add: pending_update_def empty_object_def)
  have js: "jobStore w' = updateJobStatus jid processing_update
              (updateJobStatus jid (pending_update m now u p) (jobStore w))"
    unfolding w' by (simp add: detached_effect built jobStore_call_updateJobStatus)
  have stored: "jobStore w' jid = Some ?j"
    unfolding js using fresh by (rule create_then_start)
  have fields: "status ?j = Some PROCESSING" "result ?j = None" "error ?j = None"
      "userId ?j = Some (uid u)" "mode ?j = Some m" "createdAt ?j = Some now"
    by (simp_all add: pending_update_def empty_object_def)
  have "getJobStatus (jobStore w') jid (Some (uid u)) = Some ?j"
    by (simp add: getJobStatus_def stored fields(4))
  with created same fields
  show "\<exists>j. updateJobStatus jid (pending_update m now u p) (jobStore w) jid
                = Some (j\<lparr> status := Some PENDING \<rparr>)
            \<and> getJobStatus (jobStore w') jid (Some (uid u)) = Some j
            \<and> (status j = Some PENDING \<or> status j = Some PROCESSING)
            \<and> result j = None \<and> error j = None
            \<and> userId j = Some (uid u) \<and> mode j = Some m \<and> createdAt j = Some now"
    by (intro exI [of _ ?j]) simp
  have "trace w' = trace w @ UpdateJobStatus jid (Some PENDING)
                     # [UpdateJobStatus jid (Some PROCESSING)]
                     @ [Predict \<lparr> pc_prompt = buildEnhancedPrompt ps, pc_image = img,
                                  pc_parameters = rp \<rparr>]"
    unfolding w'
    by (simp add: detached_effect built jobStore_call_updateJobStatus status_pending_update)
  moreover have "\<forall>e \<in> set [UpdateJobStatus jid (Some PROCESSING)]. \<not> is_predict e"
    by (simp add: is_predict_def)
  ultimately
  show "\<exists>between. trace w' = trace w @ UpdateJobStatus jid (Some PENDING) # between
                          @ [Predict \<lparr> pc_prompt = buildEnhancedPrompt ps, pc_image = img,
                                       pc_parameters = rp \<rparr>]
                   \<and> (\<forall>e \<in> set between. \<not> is_predict e)"
    by blast
  show "tasks w' jid = Some Awaiting"
    unfolding w' by (simp add: detached_effect built)
qed

lemma post_text_accepted:
  assumes "r_limiter_admits rq" and "r_validations_pass rq"
    and "used_today cfg (r_today' rq) (uid (r_user rq)) (quotaStore w) < dailyVideoGenerations cfg"
    and "isModeSupported cfg TEXT_TO_VIDEO"
  shows "post_text cfg rq w =
           (Inr \<lparr> a_jobId = r_uuid rq, a_status = PENDING, a_mode = TEXT_TO_VIDEO,
                  a_quota = Some \<lparr> used = used_today cfg (r_today' rq) (uid (r_user rq)) (quotaStore w) + 1,
                                    limit = dailyVideoGenerations cfg,
                                    remaining = dailyVideoGenerations cfg
                                      - used_today cfg (r_today' rq) (uid (r_user rq)) (quotaStore w) - 1 \<rparr> \<rparr>,
            catch_attached (r_uuid rq) (r_later rq)
              (executeGeneration_start cfg (r_uuid rq) (r_body rq) None
                 (call_updateJobStatus (r_uuid rq)
                    (pending_update TEXT_TO_VIDEO (r_now rq) (r_user rq)
                       \<lparr> jp_prompt = prompt (r_body rq), hasImage = None \<rparr>)
                    (w\<lparr> quotaStore := (quotaStore w)(uid (r_user rq) \<mapsto>
                            \<lparr> date = r_today rq,
                              count = used_today cfg (r_today' rq) (uid (r_user rq)) (quotaStore w) + 1 \<rparr>),
                        trace := trace w @ [ConsumeQuota (uid (r_user rq))] \<rparr>))))"
  using assms
  by (simp add: post_text_def call_consumeQuota_result generateFromText_def Let_def)

text \<open>
  A job created by a text request and completed by its generation: the record in the
  store is COMPLETED, with the result and no error.
\<close>

theorem result_xor_error_invariant_witness:
  "\<exists>j. jobStore (executeGeneration_resolved ''6f1c2a3e-8b7d-4c5a-9e0f-1a2b3c4d5e6f''
                    \<lparr> videoUri = ''gs://b/videos/6f1c2a3e-8b7d-4c5a-9e0f-1a2b3c4d5e6f.mp4'',
                      signedUrl = ''https://signed'', expiresAt = 3605000 \<rparr> 5000
                    (snd (post_text (the_config env_unset)
                            (request_of ''alice'' ''A'' ''6f1c2a3e-8b7d-4c5a-9e0f-1a2b3c4d5e6f''
                               1000 ''2026-01-05'') init_world)))
            ''6f1c2a3e-8b7d-4c5a-9e0f-1a2b3c4d5e6f'' = Some j
       \<and> status j = Some COMPLETED
       \<and> result j = Some \<lparr> videoUri = ''gs://b/videos/6f1c2a3e-8b7d-4c5a-9e0f-1a2b3c4d5e6f.mp4'',
                             signedUrl = ''https://signed'', expiresAt = 3605000 \<rparr>
       \<and> error j = None"
proof -
  let ?id = "''6f1c2a3e-8b7d-4c5a-9e0f-1a2b3c4d5e6f''"
  let ?cfg = "the_config env_unset"
  let ?rq = "request_of ''alice'' ''A'' ?id 1000 ''2026-01-05''"
  let ?res = "\<lparr> videoUri = ''gs://b/videos/6f1c2a3e-8b7d-4c5a-9e0f-1a2b3c4d5e6f.mp4'',
                 signedUrl = ''https://signed'', expiresAt = 3605000 \<rparr>"
  let ?w1 = "snd (post_text ?cfg ?rq init_world)"
  let ?w2 = "executeGeneration_resolved ?id ?res 5000 ?w1"
  have r1: "reachable ?cfg ?w1"
    by (rule reachable.on_post_text [OF reachable.at_start])
       (simp add: init_world_def request_of_def)
  have a: "r_limiter_admits ?rq" "r_validations_pass ?rq"
    by (simp_all add: request_of_def)
  have q: "used_today ?cfg (r_today' ?rq) (uid (r_user ?rq)) (quotaStore init_world)
             < dailyVideoGenerations ?cfg"
    by (simp add: used_today_simps init_world_def the_config_def env_unset_def)
  obtain rp where rp: "buildRequestParameters ?cfg (r_body ?rq) = Inr rp"
    using buildRequestParameters_the_config by blast
  have id: "r_uuid ?rq = ?id" by (simp add: request_of_def)
  have "tasks ?w1 (r_uuid ?rq) = Some Awaiting"
    unfolding post_text_accepted [OF a q text_always_supported] snd_conv
    by (rule created_and_started(3) [OF _ rp refl]) (simp add: init_world_def)
  then have t1: "tasks ?w1 ?id = Some Awaiting"
    unfolding id .
  have r2: "reachable ?cfg ?w2"
    using r1 t1 by (rule reachable.on_resolved)
  have "\<exists>j. jobStore ?w2 ?id = Some j \<and> status j = Some COMPLETED \<and> result j = Some ?res"
  proof (cases "jobStore ?w1 ?id")
    case None
    then show ?thesis
      by (simp add: executeGeneration_resolved_def Let_def jobStore_call_updateJobStatus
            updateJobStatus_absent completed_update_def empty_object_def)
  next
    case (Some old)
    have key: "\<And>a b :: 'a option. spread_key a b = (if b = None then a else b)"
      by (simp add: spread_key_def split: option.splits)
    from Some show ?thesis
      by (simp add: executeGeneration_resolved_def Let_def jobStore_call_updateJobStatus
            updateJobStatus_present completed_update_def empty_object_def spread_def key)
  qed
  then obtain j where j: "jobStore ?w2 ?id = Some j" "status j = Some COMPLETED"
      "result j = Some ?res"
    by blast
  from result_xor_error_invariant [OF r2 j(1)] j(2) have "error j = None"
    by simp
  with j show ?thesis by blast
qed

text \<open>
  Claim C3, as amended. On a deployed configuration, for a supported mode and a fresh
  job id: job creation inserts the record with status PENDING before any call to the
  provider; the provider request is then issued before the creating call returns, and
  its answer is not waited for. The creating call returns the fresh job id, and at that
  moment the owner retrieves the job, not yet terminal (status PENDING or PROCESSING)
  and with neither result nor error.
\<close>

theorem generate_returns_retrievable_job:
  assumes "jobStore w jid = None"
  shows "(\<exists>w' j rp. generateFromText (the_config env) ps u jid now later w = (Inr jid, w')
            \<and> updateJobStatus jid (pending_update TEXT_TO_VIDEO now u
                  \<lparr> jp_prompt = prompt ps, hasImage = None \<rparr>) (jobStore w) jid
                = Some (j\<lparr> status := Some PENDING \<rparr>)
            \<and> getJobStatus (jobStore w') jid (Some (uid u)) = Some j
            \<and> (status j = Some PENDING \<or> status j = Some PROCESSING)
            \<and> result j = None \<and> error j = None
            \<and> userId j = Some (uid u) \<and> mode j = Some TEXT_TO_VIDEO
            \<and> createdAt j = Some now
            \<and> buildRequestParameters (the_config env) ps = Inr rp
            \<and> (\<exists>between. trace w' = trace w @ UpdateJobStatus jid (Some PENDING) # between
                    @ [Predict \<lparr> pc_prompt = buildEnhancedPrompt ps, pc_image = None,
                                 pc_parameters = rp \<rparr>]
                  \<and> (\<forall>e \<in> set between. \<not> is_predict e))
            \<and> tasks w' jid = Some Awaiting)
       \<and> (isModeSupported (the_config env) IMAGE_TO_VIDEO \<longrightarrow>
           (\<exists>w' j rp. generateFromImage (the_config env) ps u jid now later w = (Inr jid, w')
              \<and> updateJobStatus jid (pending_update IMAGE_TO_VIDEO now u
                    \<lparr> jp_prompt = prompt ps, hasImage = Some True \<rparr>) (jobStore w) jid
                  = Some (j\<lparr> status := Some PENDING \<rparr>)
              \<and> getJobStatus (jobStore w') jid (Some (uid u)) = Some j
              \<and> (status j = Some PENDING \<or> status j = Some PROCESSING)
              \<and> result j = None \<and> error j = None
              \<and> userId j = Some (uid u) \<and> mode j = Some IMAGE_TO_VIDEO
              \<and> createdAt j = Some now
              \<and> buildRequestParameters (the_config env) ps = Inr rp
              \<and> (\<exists>between. trace w' = trace w @ UpdateJobStatus jid (Some PENDING) # between
                      @ [Predict \<lparr> pc_prompt = buildEnhancedPrompt ps,
                            pc_image = Some (imageBase64 ps,
                              if truthy_string (imageMimeType ps) then the (imageMimeType ps)
                              else ''image/png''),
                            pc_parameters = rp \<rparr>]
                    \<and> (\<forall>e \<in> set between. \<not> is_predict e))
              \<and> tasks w' jid = Some Awaiting))"
proof (intro conjI impI)
  let ?cfg = "the_config env"
  obtain rp where rp: "buildRequestParameters ?cfg ps = Inr rp"
    using buildRequestParameters_the_config by blast
  let ?p = "\<lparr> jp_prompt = prompt ps, hasImage = None \<rparr>"
  let ?w' = "catch_attached jid later
               (executeGeneration_start ?cfg jid ps None
                  (call_updateJobStatus jid (pending_update TEXT_TO_VIDEO now u ?p) w))"
  have run: "generateFromText ?cfg ps u jid now later w = (Inr jid, ?w')"
    using text_always_supported [of env] by (simp add: generateFromText_def Let_def)
  note facts = created_and_started
    [where later = later and img = None and m = TEXT_TO_VIDEO and now = now and u = u
       and p = ?p, OF assms rp refl]
  from facts(1) obtain j where j:
      "updateJobStatus jid (pending_update TEXT_TO_VIDEO now u ?p) (jobStore w) jid
         = Some (j\<lparr> status := Some PENDING \<rparr>)"
      "getJobStatus (jobStore ?w') jid (Some (uid u)) = Some j"
      "status j = Some PENDING \<or> status j = Some PROCESSING"
      "result j = None" "error j = None" "userId j = Some (uid u)"
      "mode j = Some TEXT_TO_VIDEO" "createdAt j = Some now"
    by blast
  from run j rp facts(2) facts(3)
  show "\<exists>w' j rp. generateFromText ?cfg ps u jid now later w = (Inr jid, w')
            \<and> updateJobStatus jid (pending_update TEXT_TO_VIDEO now u ?p) (jobStore w) jid
                = Some (j\<lparr> status := Some PENDING \<rparr>)
            \<and> getJobStatus (jobStore w') jid (Some (uid u)) = Some j
            \<and> (status j = Some PENDING \<or> status j = Some PROCESSING)
            \<and> result j = None \<and> error j = None
            \<and> userId j = Some (uid u) \<and> mode j = Some TEXT_TO_VIDEO
            \<and> createdAt j = Some now
            \<and> buildRequestParameters ?cfg ps = Inr rp
            \<and> (\<exists>between. trace w' = trace w @ UpdateJobStatus jid (Some PENDING) # between
                    @ [Predict \<lparr> pc_prompt = buildEnhancedPrompt ps, pc_image = None,
                                 pc_parameters = rp \<rparr>]
                  \<and> (\<forall>e \<in> set between. \<not> is_predict e))
            \<and> tasks w' jid = Some Awaiting"
    by (intro exI [of _ ?w'] exI [of _ j] exI [of _ rp] conjI)
next
  let ?cfg = "the_config env"
  assume sup: "isModeSupported ?cfg IMAGE_TO_VIDEO"
  obtain rp where rp: "buildRequestParameters ?cfg ps = Inr rp"
    using buildRequestParameters_the_config by blast
  let ?p = "\<lparr> jp_prompt = prompt ps, hasImage = Some True \<rparr>"
  let ?img = "Some (imageBase64 ps,
                    if truthy_string (imageMimeType ps) then the (imageMimeType ps)
                    else ''image/png'')"
  let ?w' = "catch_attached jid later
               (executeGeneration_start ?cfg jid ps ?img
                  (call_updateJobStatus jid (pending_update IMAGE_TO_VIDEO now u ?p) w))"
  have run: "generateFromImage ?cfg ps u jid now later w = (Inr jid, ?w')"
    using sup by (simp add: generateFromImage_def Let_def)
  note facts = created_and_started
    [where later = later and img = ?img and m = IMAGE_TO_VIDEO and now = now and u = u
       and p = ?p, OF assms rp refl]
  from facts(1) obtain j where j:
      "updateJobStatus jid (pending_update IMAGE_TO_VIDEO now u ?p) (jobStore w) jid
         = Some (j\<lparr> status := Some PENDING \<rparr>)"
      "getJobStatus (jobStore ?w') jid (Some (uid u)) = Some j"
      "status j = Some PENDING \<or> status j = Some PROCESSING"
      "result j = None" "error j = None" "userId j = Some (uid u)"
      "mode j = Some IMAGE_TO_VIDEO" "createdAt j = Some now"
    by blast
  from run j rp facts(2) facts(3)
  show "\<exists>w' j rp. generateFromImage ?cfg ps u jid now later w = (Inr jid, w')
              \<and> updateJobStatus jid (pending_update IMAGE_TO_VIDEO now u ?p) (jobStore w) jid
                  = Some (j\<lparr> status := Some PENDING \<rparr>)
              \<and> getJobStatus (jobStore w') jid (Some (uid u)) = Some j
              \<and> (status j = Some PENDING \<or> status j = Some PROCESSING)
              \<and> result j = None \<and> error j = None
              \<and> userId j = Some (uid u) \<and> mode j = Some IMAGE_TO_VIDEO
              \<and> createdAt j = Some now
              \<and> buildRequestParameters ?cfg ps = Inr rp
              \<and> (\<exists>between. trace w' = trace w @ UpdateJobStatus jid (Some PENDING) # between
                      @ [Predict \<lparr> pc_prompt = buildEnhancedPrompt ps, pc_image = ?img,
                                   pc_parameters = rp \<rparr>]
                    \<and> (\<forall>e \<in> set between. \<not> is_predict e))
              \<and> tasks w' jid = Some Awaiting"
    by (intro exI [of _ ?w'] exI [of _ j] exI [of _ rp] conjI)
qed

theorem generate_returns_retrievable_job_witness:
  "\<exists>w' j. generateFromText (the_config env_unset) (prompt_only ''A'')
              \<lparr> uid = ''alice'', email = None \<rparr> ''6f1c2a3e-8b7d-4c5a-9e0f-1a2b3c4d5e6f''
              1000 1000 init_world
            = (Inr ''6f1c2a3e-8b7d-4c5a-9e0f-1a2b3c4d5e6f'', w')
          \<and> getJobStatus (jobStore w') ''6f1c2a3e-8b7d-4c5a-9e0f-1a2b3c4d5e6f'' (Some ''alice'')
              = Some j
          \<and> result j = None \<and> error j = None \<and> createdAt j = Some 1000
          \<and> tasks w' ''6f1c2a3e-8b7d-4c5a-9e0f-1a2b3c4d5e6f'' = Some Awaiting"
proof -
  have fresh: "jobStore init_world ''6f1c2a3e-8b7d-4c5a-9e0f-1a2b3c4d5e6f'' = None"
    by (simp add: init_world_def)
  from generate_returns_retrievable_job
         [OF fresh, of env_unset "prompt_only ''A''" "\<lparr> uid = ''alice'', email = None \<rparr>"
            1000 1000]
  show ?thesis by fastforce
qed

text \<open>
  Claim C3 as stated fails. A first text request on the shipped configuration: when
  \<open>generateFromText\<close> returns the job id, the provider request has already been
  issued, and the owner's read of the job gives the status PROCESSING, not PENDING.
\<close>

theorem generateFromText_not_pending_counterexample:
  "fst (generateFromText (the_config env_unset) (prompt_only ''A'')
          \<lparr> uid = ''alice'', email = None \<rparr> ''6f1c2a3e-8b7d-4c5a-9e0f-1a2b3c4d5e6f''
          1000 1000 init_world)
     = Inr ''6f1c2a3e-8b7d-4c5a-9e0f-1a2b3c4d5e6f''
   \<and> map_option status
        (getJobStatus
           (jobStore (snd (generateFromText (the_config env_unset) (prompt_only ''A'')
                             \<lparr> uid = ''alice'', email = None \<rparr>
                             ''6f1c2a3e-8b7d-4c5a-9e0f-1a2b3c4d5e6f'' 1000 1000 init_world)))
           ''6f1c2a3e-8b7d-4c5a-9e0f-1a2b3c4d5e6f'' (Some ''alice''))
      = Some (Some PROCESSING)
   \<and> trace (snd (generateFromText (the_config env_unset) (prompt_only ''A'')
                    \<lparr> uid = ''alice'', email = None \<rparr>
                    ''6f1c2a3e-8b7d-4c5a-9e0f-1a2b3c4d5e6f'' 1000 1000 init_world))
      = [UpdateJobStatus ''6f1c2a3e-8b7d-4c5a-9e0f-1a2b3c4d5e6f'' (Some PENDING),
         UpdateJobStatus ''6f1c2a3e-8b7d-4c5a-9e0f-1a2b3c4d5e6f'' (Some PROCESSING),
         Predict \<lparr> pc_prompt = ''A'', pc_image = None,
                   pc_parameters =
                     \<lparr> rp_aspectRatio = ''16:9'', rp_durationSeconds = 4, rp_fps = None,
                       rp_negativePrompt = None, rp_seed = None, rp_generateAudio = None,
                       rp_resolution = None \<rparr> \<rparr>]"
proof -
  let ?id = "''6f1c2a3e-8b7d-4c5a-9e0f-1a2b3c4d5e6f''"
  let ?cfg = "the_config env_unset"
  let ?u = "\<lparr> uid = ''alice'', email = None \<rparr>"
  let ?g = "generateFromText ?cfg (prompt_only ''A'') ?u ?id 1000 1000 init_world"
  let ?p = "\<lparr> jp_prompt = prompt (prompt_only ''A''), hasImage = None \<rparr>"
  have sup: "isModeSupported ?cfg TEXT_TO_VIDEO"
    by (rule text_always_supported)
  have brp: "buildRequestParameters ?cfg (prompt_only ''A'')
      = Inr \<lparr> rp_aspectRatio = ''16:9'', rp_durationSeconds = 4, rp_fps = None,
              rp_negativePrompt = None, rp_seed = None, rp_generateAudio = None,
              rp_resolution = None \<rparr>"
    by (simp add: buildRequestParameters_def normalizeDuration_def reduce_def truthy_number_def
          truthy_string_def the_config_def env_unset_def prompt_only_def)
  have bep: "buildEnhancedPrompt (prompt_only ''A'') = ''A''"
    by (simp add: buildEnhancedPrompt_def prompt_only_def truthy_string_def)
  have 1: "fst ?g = Inr ?id"
    using sup by (simp add: generateFromText_def Let_def)
  have js: "jobStore (snd ?g) = updateJobStatus ?id processing_update
              (updateJobStatus ?id (pending_update TEXT_TO_VIDEO 1000 ?u ?p) Map.empty)"
    using sup by (simp add: generateFromText_def Let_def detached_effect brp
                    jobStore_call_updateJobStatus init_world_def)
  have stored: "jobStore (snd ?g) ?id
      = Some ((pending_update TEXT_TO_VIDEO 1000 ?u ?p)\<lparr> status := Some PROCESSING,
                                                          jobId := Some ?id \<rparr>)"
    unfolding js by (rule create_then_start) simp
  have 2: "map_option status (getJobStatus (jobStore (snd ?g)) ?id (Some ''alice''))
             = Some (Some PROCESSING)"
    by (simp add: getJobStatus_def stored truthy_string_def pending_update_def empty_object_def)
  have 3: "trace (snd ?g) = [UpdateJobStatus ?id (Some PENDING),
         UpdateJobStatus ?id (Some PROCESSING),
         Predict \<lparr> pc_prompt = ''A'', pc_image = None,
                   pc_parameters =
                     \<lparr> rp_aspectRatio = ''16:9'', rp_durationSeconds = 4, rp_fps = None,
                       rp_negativePrompt = None, rp_seed = None, rp_generateAudio = None,
                       rp_resolution = None \<rparr> \<rparr>]"
    using sup by (simp add: generateFromText_def Let_def detached_effect
                    jobStore_call_updateJobStatus status_pending_update brp bep init_world_def)
  from 1 2 3 show ?thesis by (intro conjI)
qed









end
